theory Spec2Isabelle
  imports Complex_Main
begin

section \<open>Python values, errors and numpy arrays\<close>

text \<open>
  The two source files are numeric Python over numpy. Numbers are modelled as
  \<^typ>\<open>real\<close>: exact arithmetic, so rounding, overflow and the values
  \<open>nan\<close> and \<open>inf\<close> of IEEE doubles are outside the model (the one
  infinity the source itself writes, the default \<open>clip_thresh = np.inf\<close>,
  is a value of \<open>pyfloat\<close> below). Every exception the code can raise is a
  value of \<open>error\<close>; a \<open>ValueError\<close> carries the message the source
  gives it, or the name of the library that raises it.
\<close>

datatype error =
    ValueError string
  | TypeError
  | IndexError
  | AttributeError
  | NotFittedError

text \<open>
  A one-dimensional array is a list. A two-dimensional array carries its shape
  and its entries, so that a shape with a zero dimension is kept and every
  value of the type is rectangular.
\<close>

record array2 =
  nrows :: nat
  ncols :: nat
  elem :: "nat \<Rightarrow> nat \<Rightarrow> real"

definition row :: "array2 \<Rightarrow> nat \<Rightarrow> real list" where
  "row A i = map (elem A i) [0..<ncols A]"

text \<open>Iterating a two-dimensional array yields its rows.\<close>

definition rows_of :: "array2 \<Rightarrow> real list list" where
  "rows_of A = map (row A) [0..<nrows A]"

definition entries :: "array2 \<Rightarrow> real list" where
  "entries A = concat (rows_of A)"

text \<open>\<open>A.T\<close>\<close>

definition transpose2 :: "array2 \<Rightarrow> array2" where
  "transpose2 A = \<lparr>nrows = ncols A, ncols = nrows A, elem = (\<lambda>i j. elem A j i)\<rparr>"

text \<open>\<open>y.reshape(-1, 1)\<close>\<close>

definition reshape_col :: "real list \<Rightarrow> array2" where
  "reshape_col y = \<lparr>nrows = length y, ncols = 1, elem = (\<lambda>i j. y ! i)\<rparr>"

text \<open>
  numpy's broadcasting of two axes: equal lengths, or one of them of length 1,
  which is then repeated.
\<close>

definition bdim :: "nat \<Rightarrow> nat \<Rightarrow> nat option" where
  "bdim a c = (if a = c then Some a else if a = 1 then Some c
               else if c = 1 then Some a else None)"

definition bidx :: "nat \<Rightarrow> nat \<Rightarrow> nat" where
  "bidx n i = (if n = 1 then 0 else i)"

text \<open>An elementwise binary operation on two one-dimensional arrays.\<close>

definition broadcast1 ::
  "(real \<Rightarrow> real \<Rightarrow> real) \<Rightarrow> real list \<Rightarrow> real list \<Rightarrow> error + real list" where
  "broadcast1 f xs ys =
     (case bdim (length xs) (length ys) of
        None \<Rightarrow> Inl (ValueError ''numpy: operands could not be broadcast together'')
      | Some n \<Rightarrow>
          Inr (map (\<lambda>i. f (xs ! bidx (length xs) i) (ys ! bidx (length ys) i)) [0..<n]))"

text \<open>An elementwise binary operation on two two-dimensional arrays.\<close>

definition broadcast2 ::
  "(real \<Rightarrow> real \<Rightarrow> real) \<Rightarrow> array2 \<Rightarrow> array2 \<Rightarrow> error + array2" where
  "broadcast2 f A B =
     (case bdim (nrows A) (nrows B) of
        None \<Rightarrow> Inl (ValueError ''numpy: operands could not be broadcast together'')
      | Some r \<Rightarrow>
         (case bdim (ncols A) (ncols B) of
            None \<Rightarrow> Inl (ValueError ''numpy: operands could not be broadcast together'')
          | Some c \<Rightarrow>
              Inr \<lparr>nrows = r, ncols = c,
                   elem = (\<lambda>i j. f (elem A (bidx (nrows A) i) (bidx (ncols A) j))
                                   (elem B (bidx (nrows B) i) (bidx (ncols B) j)))\<rparr>))"

text \<open>An elementwise unary operation (a scalar combined with an array included).\<close>

definition map_array2 :: "(real \<Rightarrow> real) \<Rightarrow> array2 \<Rightarrow> array2" where
  "map_array2 f A = A\<lparr>elem := (\<lambda>i j. f (elem A i j))\<rparr>"

text \<open>\<open>a.dot(b)\<close> for two one-dimensional arrays: the inner product.\<close>

definition dot11 :: "real list \<Rightarrow> real list \<Rightarrow> error + real" where
  "dot11 xs ys =
     (if length xs = length ys then Inr (sum_list (map2 (*) xs ys))
      else Inl (ValueError ''numpy: shapes not aligned''))"

text \<open>\<open>A.dot(B)\<close> for two two-dimensional arrays: the matrix product.\<close>

definition dot22 :: "array2 \<Rightarrow> array2 \<Rightarrow> error + array2" where
  "dot22 A B =
     (if ncols A = nrows B
      then Inr \<lparr>nrows = nrows A, ncols = ncols B,
                elem = (\<lambda>i j. sum_list (map (\<lambda>k. elem A i k * elem B k j) [0..<ncols A]))\<rparr>
      else Inl (ValueError ''numpy: shapes not aligned''))"

text \<open>\<open>a.dot(B)\<close> for a one-dimensional \<open>a\<close> and a two-dimensional \<open>B\<close>.\<close>

definition dot12 :: "real list \<Rightarrow> array2 \<Rightarrow> error + real list" where
  "dot12 xs B =
     (if length xs = nrows B
      then Inr (map (\<lambda>j. sum_list (map (\<lambda>i. xs ! i * elem B i j) [0..<nrows B])) [0..<ncols B])
      else Inl (ValueError ''numpy: shapes not aligned''))"

text \<open>\<open>np.linalg.norm\<close>: the Euclidean norm of a vector, the Frobenius norm of a matrix.\<close>

definition norm1 :: "real list \<Rightarrow> real" where
  "norm1 xs = sqrt (sum_list (map (\<lambda>v. v ^ 2) xs))"

definition norm2 :: "array2 \<Rightarrow> real" where
  "norm2 A = sqrt (sum_list (map (\<lambda>v. v ^ 2) (entries A)))"

text \<open>
  \<open>x ** d\<close> on floats: an integral exponent is a (possibly negative) integer
  power, any other exponent the real power of a positive base. (For a base
  that is not positive numpy yields \<open>nan\<close> or \<open>inf\<close> in the cases where the real
  power does not exist.)
\<close>

definition np_power :: "real \<Rightarrow> real \<Rightarrow> real" where
  "np_power x d = (if d = of_int \<lfloor>d\<rfloor> then x powi \<lfloor>d\<rfloor> else x powr d)"

text \<open>\<open>a[i]\<close> for an index produced by \<open>enumerate\<close> (never negative).\<close>

definition getitem :: "real list \<Rightarrow> nat \<Rightarrow> error + real" where
  "getitem xs i = (if i < length xs then Inr (xs ! i) else Inl IndexError)"

text \<open>\<open>np.where(cond)\<close> on a one-dimensional array: the indices where it holds.\<close>

definition np_where :: "(real \<Rightarrow> bool) \<Rightarrow> real list \<Rightarrow> nat list" where
  "np_where P xs = filter (\<lambda>i. P (xs ! i)) [0..<length xs]"

text \<open>\<open>a[idx]\<close> and \<open>A[idx]\<close> for an index array: the entries (rows) at these indices.\<close>

definition take1 :: "real list \<Rightarrow> nat list \<Rightarrow> error + real list" where
  "take1 xs idx =
     (if list_all (\<lambda>i. i < length xs) idx then Inr (map (\<lambda>i. xs ! i) idx) else Inl IndexError)"

definition take_rows :: "array2 \<Rightarrow> nat list \<Rightarrow> error + array2" where
  "take_rows A idx =
     (if list_all (\<lambda>i. i < nrows A) idx
      then Inr \<lparr>nrows = length idx, ncols = ncols A, elem = (\<lambda>i j. elem A (idx ! i) j)\<rparr>
      else Inl IndexError)"

section \<open>Kernels (svm.py, lines 11 to 172)\<close>

text \<open>
  An instance of one of the five kernel classes with the attributes its
  constructor stores, or a callable that is no such instance (the plain
  \<open>function(x, y) -> float\<close> of the docstring), which has neither a \<open>name\<close>
  nor a \<open>transform\<close> attribute.
\<close>

datatype kernel =
    GaussianKernel real
  | LinearKernel
  | PolynomialKernel real
  | SigmoidKernel
  | TanHKernel
  | Callable

text \<open>Keyword arguments \<open>**kernel_args\<close>: names with their values.\<close>

type_synonym kwargs = "(string \<times> real) list"

text \<open>
  Calling a function with keyword arguments raises \<open>TypeError\<close> when one of them
  is not a parameter of the function; a parameter that is not passed takes its
  default.
\<close>

definition accepts :: "string list \<Rightarrow> kwargs \<Rightarrow> bool" where
  "accepts params args = list_all (\<lambda>kv. fst kv \<in> set params) args"

definition kwarg :: "kwargs \<Rightarrow> string \<Rightarrow> real \<Rightarrow> real" where
  "kwarg args k dflt = (case map_of args k of None \<Rightarrow> dflt | Some v \<Rightarrow> v)"

definition GaussianKernel_init :: "kwargs \<Rightarrow> error + kernel" where
  "GaussianKernel_init args =
     (if accepts [''radius''] args
      then (let radius = kwarg args ''radius'' (1/2) in
            if radius \<le> 0 then Inl (ValueError ''radius must be greater than zero.'')
            else Inr (GaussianKernel radius))
      else Inl TypeError)"

definition LinearKernel_init :: "kwargs \<Rightarrow> error + kernel" where
  "LinearKernel_init args = (if accepts [] args then Inr LinearKernel else Inl TypeError)"

definition PolynomialKernel_init :: "kwargs \<Rightarrow> error + kernel" where
  "PolynomialKernel_init args =
     (if accepts [''degree''] args then Inr (PolynomialKernel (kwarg args ''degree'' 2))
      else Inl TypeError)"

definition SigmoidKernel_init :: "kwargs \<Rightarrow> error + kernel" where
  "SigmoidKernel_init args = (if accepts [''radius''] args then Inr SigmoidKernel else Inl TypeError)"

definition TanHKernel_init :: "kwargs \<Rightarrow> error + kernel" where
  "TanHKernel_init args = (if accepts [''radius''] args then Inr TanHKernel else Inl TypeError)"

text \<open>The attribute \<open>name\<close>.\<close>

definition kernel_name :: "kernel \<Rightarrow> error + string" where
  "kernel_name k =
     (case k of
        GaussianKernel r \<Rightarrow> Inr ''gaussian''
      | LinearKernel \<Rightarrow> Inr ''linear''
      | PolynomialKernel d \<Rightarrow> Inr ''polynomial''
      | SigmoidKernel \<Rightarrow> Inr ''sigmoid''
      | TanHKernel \<Rightarrow> Inr ''tanh''
      | Callable \<Rightarrow> Inl AttributeError)"

text \<open>\<open>transform(xi, xj)\<close> on two one-dimensional arrays.\<close>

definition transform :: "kernel \<Rightarrow> real list \<Rightarrow> real list \<Rightarrow> error + real" where
  "transform k xi xj =
     (case k of
        GaussianKernel radius \<Rightarrow>
          (case broadcast1 (-) xi xj of
             Inl e \<Rightarrow> Inl e
           | Inr d \<Rightarrow> Inr (exp (- (norm1 d ^ 2) / radius ^ 2)))
      | LinearKernel \<Rightarrow> dot11 xi xj
      | PolynomialKernel degree \<Rightarrow>
          (case dot11 xi xj of Inl e \<Rightarrow> Inl e | Inr d \<Rightarrow> Inr (np_power (1 + d) degree))
      | SigmoidKernel \<Rightarrow>
          (case dot11 xi xj of Inl e \<Rightarrow> Inl e | Inr d \<Rightarrow> Inr (1 / (1 + exp (- d))))
      | TanHKernel \<Rightarrow>
          (case dot11 xi xj of Inl e \<Rightarrow> Inl e | Inr d \<Rightarrow> Inr (tanh d))
      | Callable \<Rightarrow> Inl AttributeError)"

text \<open>
  The same method on two two-dimensional arrays, as the vectorized loss calls
  it: the numpy operations are then those of matrices, and the Gaussian
  kernel's norm makes its result a scalar.
\<close>

datatype ndarray = Scalar real | Matrix array2

definition transform2 :: "kernel \<Rightarrow> array2 \<Rightarrow> array2 \<Rightarrow> error + ndarray" where
  "transform2 k xi xj =
     (case k of
        GaussianKernel radius \<Rightarrow>
          (case broadcast2 (-) xi xj of
             Inl e \<Rightarrow> Inl e
           | Inr d \<Rightarrow> Inr (Scalar (exp (- (norm2 d ^ 2) / radius ^ 2))))
      | LinearKernel \<Rightarrow>
          (case dot22 xi xj of Inl e \<Rightarrow> Inl e | Inr d \<Rightarrow> Inr (Matrix d))
      | PolynomialKernel degree \<Rightarrow>
          (case dot22 xi xj of
             Inl e \<Rightarrow> Inl e
           | Inr d \<Rightarrow> Inr (Matrix (map_array2 (\<lambda>v. np_power (1 + v) degree) d)))
      | SigmoidKernel \<Rightarrow>
          (case dot22 xi xj of
             Inl e \<Rightarrow> Inl e
           | Inr d \<Rightarrow> Inr (Matrix (map_array2 (\<lambda>v. 1 / (1 + exp (- v))) d)))
      | TanHKernel \<Rightarrow>
          (case dot22 xi xj of Inl e \<Rightarrow> Inl e | Inr d \<Rightarrow> Inr (Matrix (map_array2 tanh d)))
      | Callable \<Rightarrow> Inl AttributeError)"

text \<open>\<open>KERNEL_MAP\<close>: the configuration keys with the classes they construct.\<close>

definition KERNEL_MAP :: "(string \<times> (kwargs \<Rightarrow> error + kernel)) list" where
  "KERNEL_MAP =
     [(''gaussian'', GaussianKernel_init),
      (''linear'', LinearKernel_init),
      (''polynomial'', PolynomialKernel_init),
      (''sigmoid'', SigmoidKernel_init),
      (''tanh'', TanHKernel_init)]"

section \<open>The SVM classifier (svm.py, lines 175 to 516)\<close>

text \<open>
  The estimator's attributes (the source's names end in an underscore); an
  attribute that has not been assigned yet is \<open>None\<close>. \<open>opt_result\<close> is the
  \<open>x\<close> of the optimizer's result.
\<close>

record svm =
  kernel_obj :: kernel
  classes :: "real list option"
  opt_result :: "real list option"
  sup_X :: "array2 option"
  sup_y :: "real list option"
  sup_alphas :: "real list option"
  offset :: "real option"

text \<open>What the caller passes as \<open>kernel\<close>: a string, a callable, or anything else.\<close>

datatype kernel_arg = PyStr string | PyCallable | PyOther

text \<open>
  Calling what \<open>KERNEL_MAP.get(kernel)\<close> returned: the class's constructor, or
  \<open>None\<close>, and calling \<open>None\<close> raises \<open>TypeError\<close>.
\<close>

definition call_class ::
  "(kwargs \<Rightarrow> error + kernel) option \<Rightarrow> kwargs \<Rightarrow> error + kernel option" where
  "call_class cls args =
     (case cls of
        None \<Rightarrow> Inl TypeError
      | Some c \<Rightarrow> (case c args of Inl e \<Rightarrow> Inl e | Inr k \<Rightarrow> Inr (Some k)))"

text \<open>\<open>SVM.__init__\<close> (lines 233 to 244).\<close>

definition SVM_init :: "kernel_arg \<Rightarrow> kwargs \<Rightarrow> error + svm" where
  "SVM_init kern kernel_args =
     (case (case kern of
              PyStr s \<Rightarrow> call_class (map_of KERNEL_MAP s) kernel_args
            | PyCallable \<Rightarrow> Inr (Some Callable)
            | PyOther \<Rightarrow> Inl (ValueError ''Kernel must be a string or callable.''))
      of
        Inl e \<Rightarrow> Inl e
      | Inr None \<Rightarrow> Inl (ValueError ''Invalid kernel.'')
      | Inr (Some k) \<Rightarrow>
          Inr \<lparr>kernel_obj = k, classes = None, opt_result = None, sup_X = None,
               sup_y = None, sup_alphas = None, offset = None\<rparr>)"

text \<open>
  The libraries the estimator calls: sklearn's input validation, scipy's
  constrained minimizer (given the loss as a function of the dual variables,
  the initial guess and the vector of the equality constraint) and numpy's
  random generator. They are parameters of the model.
\<close>

record library =
  check_X_y :: "array2 \<Rightarrow> real list \<Rightarrow> error + (array2 \<times> real list)"
  unique_labels :: "real list \<Rightarrow> error + real list"
  check_array :: "array2 \<Rightarrow> error + array2"
  minimize :: "(real list \<Rightarrow> error + real) \<Rightarrow> real list \<Rightarrow> real list \<Rightarrow> error + real list"
  rand :: "nat \<Rightarrow> real list"

text \<open>
  \<open>_loss\<close> (lines 387 to 433). The inner loop \<open>for j, xj in enumerate(X)\<close> adds
  one term to \<open>right_sum\<close> per pair; the list \<open>terms\<close> is only printed and is
  left out, as is the printing.
\<close>

fun loss_inner ::
  "kernel \<Rightarrow> real list \<Rightarrow> real list \<Rightarrow> real \<Rightarrow> real \<Rightarrow> real list \<Rightarrow>
   (nat \<times> real list) list \<Rightarrow> real \<Rightarrow> error + real" where
  "loss_inner k alphas y ai yi xi [] right_sum = Inr right_sum"
| "loss_inner k alphas y ai yi xi ((j, xj) # rest) right_sum =
     (case getitem alphas j of
        Inl e \<Rightarrow> Inl e
      | Inr aj \<Rightarrow>
         (case getitem y j of
            Inl e \<Rightarrow> Inl e
          | Inr yj \<Rightarrow>
             (case transform k xi xj of
                Inl e \<Rightarrow> Inl e
              | Inr kv \<Rightarrow>
                  loss_inner k alphas y ai yi xi rest (right_sum + ai * aj * yi * yj * kv))))"

text \<open>The outer loop \<open>for i, xi in enumerate(X)\<close>.\<close>

fun loss_outer ::
  "kernel \<Rightarrow> real list \<Rightarrow> real list \<Rightarrow> (nat \<times> real list) list \<Rightarrow>
   (nat \<times> real list) list \<Rightarrow> real \<Rightarrow> error + real" where
  "loss_outer k alphas y X_rows [] right_sum = Inr right_sum"
| "loss_outer k alphas y X_rows ((i, xi) # rest) right_sum =
     (case getitem alphas i of
        Inl e \<Rightarrow> Inl e
      | Inr ai \<Rightarrow>
         (case getitem y i of
            Inl e \<Rightarrow> Inl e
          | Inr yi \<Rightarrow>
             (case loss_inner k alphas y ai yi xi X_rows right_sum of
                Inl e \<Rightarrow> Inl e
              | Inr s \<Rightarrow> loss_outer k alphas y X_rows rest s)))"

definition loss :: "kernel \<Rightarrow> real list \<Rightarrow> array2 \<Rightarrow> real list \<Rightarrow> error + real" where
  "loss k alphas X y =
     (let left_sum = sum_list alphas in
      case loss_outer k alphas y (enumerate 0 (rows_of X)) (enumerate 0 (rows_of X)) 0 of
        Inl e \<Rightarrow> Inl e
      | Inr right_sum \<Rightarrow> Inr (-1 * (left_sum - 1/2 * right_sum)))"

text \<open>\<open>a.dot(H)\<close> for a one-dimensional \<open>a\<close>: a scalar \<open>H\<close> scales it.\<close>

definition dot1n :: "real list \<Rightarrow> ndarray \<Rightarrow> error + real list" where
  "dot1n xs H = (case H of Scalar c \<Rightarrow> Inr (map (\<lambda>a. a * c) xs) | Matrix M \<Rightarrow> dot12 xs M)"

text \<open>\<open>_vectorized_loss\<close> (lines 435 to 474); the transpose of a one-dimensional array is itself.\<close>

definition vectorized_loss :: "kernel \<Rightarrow> real list \<Rightarrow> array2 \<Rightarrow> real list \<Rightarrow> error + real" where
  "vectorized_loss k alphas X y =
     (let left_sum = sum_list alphas;
          y_col = reshape_col y in
      case broadcast2 (*) y_col X of
        Inl e \<Rightarrow> Inl e
      | Inr X_y \<Rightarrow>
         (case transform2 k X_y (transpose2 X_y) of
            Inl e \<Rightarrow> Inl e
          | Inr H \<Rightarrow>
             (case dot1n alphas H of
                Inl e \<Rightarrow> Inl e
              | Inr aH \<Rightarrow>
                 (case dot11 aH alphas of
                    Inl e \<Rightarrow> Inl e
                  | Inr right_sum \<Rightarrow> Inr (-1 * (left_sum - 1/2 * right_sum))))))"

text \<open>
  The loop \<open>for xi, yi, ai in zip(self.sup_X_, self.sup_y_, self.sup_alphas_)\<close>
  of \<open>_compute_offset\<close> and of \<open>_compute_discriminant\<close>, which adds
  \<open>ai * yi * transform(xi, x)\<close> to \<open>_sum\<close>.
\<close>

fun kernel_sum ::
  "kernel \<Rightarrow> real list \<Rightarrow> (real list \<times> real \<times> real) list \<Rightarrow> real \<Rightarrow> error + real" where
  "kernel_sum k x [] s = Inr s"
| "kernel_sum k x ((xi, yi, ai) # rest) s =
     (case transform k xi x of
        Inl e \<Rightarrow> Inl e
      | Inr kv \<Rightarrow> kernel_sum k x rest (s + ai * yi * kv))"

text \<open>\<open>_compute_offset\<close> (lines 476 to 493).\<close>

definition compute_offset :: "svm \<Rightarrow> error + real" where
  "compute_offset self =
     (case sup_X self of
        None \<Rightarrow> Inl AttributeError
      | Some SX \<Rightarrow>
         if nrows SX = 0 then Inl IndexError
         else
          (case sup_y self of
             None \<Rightarrow> Inl AttributeError
           | Some sy \<Rightarrow>
              (case getitem sy 0 of
                 Inl e \<Rightarrow> Inl e
               | Inr yk \<Rightarrow>
                  (case sup_alphas self of
                     None \<Rightarrow> Inl AttributeError
                   | Some sa \<Rightarrow>
                      (case kernel_sum (kernel_obj self) (row SX 0)
                              (zip (rows_of SX) (zip sy sa)) 0 of
                         Inl e \<Rightarrow> Inl e
                       | Inr s \<Rightarrow> Inr (yk - s))))))"




text \<open>The threshold \<open>0.001\<close> above which a dual variable marks a support vector.\<close>

definition sv_threshold :: real where
  "sv_threshold = 1/1000"

text \<open>
  Pieces of \<open>fit\<close>: the default of \<open>vectorized\<close> (lines 269 to 273, \<open>nm\<close> being
  the kernel's name), the choice of the loss (lines 279 to 282) and the
  assignment \<open>y[y == 0] = -1\<close> (line 285).
\<close>

definition default_vectorized :: "string \<Rightarrow> bool option \<Rightarrow> bool" where
  "default_vectorized nm vectorized =
     (case vectorized of None \<Rightarrow> (nm = ''linear'') | Some v \<Rightarrow> v)"

text \<open>
  The entry check of \<open>fit\<close> (lines 264 to 273): the exception it raises, or
  the value of \<open>vectorized\<close> the rest of \<open>fit\<close> uses.
\<close>

definition fit_validate :: "kernel \<Rightarrow> bool option \<Rightarrow> error + bool" where
  "fit_validate k vectorized =
     (case kernel_name k of
        Inl e \<Rightarrow> Inl e
      | Inr nm \<Rightarrow>
         if nm \<noteq> ''linear'' \<and> vectorized = Some True
         then Inl (ValueError ''Vectorized loss only works with linear kernel right now.'')
         else Inr (default_vectorized nm vectorized))"

definition choose_loss ::
  "kernel \<Rightarrow> bool \<Rightarrow> real list \<Rightarrow> array2 \<Rightarrow> real list \<Rightarrow> error + real" where
  "choose_loss k vec = (if vec then vectorized_loss k else loss k)"

definition remap_labels :: "real list \<Rightarrow> real list" where
  "remap_labels y = map (\<lambda>v. if v = 0 then -1 else v) y"

text \<open>
  \<open>fit\<close> (lines 246 to 321). An exception leaves the attributes assigned
  before it in place, so the result is the exception, if any, with the
  estimator as the call leaves it.
\<close>

definition fit ::
  "library \<Rightarrow> svm \<Rightarrow> array2 \<Rightarrow> real list \<Rightarrow> bool option \<Rightarrow> error option \<times> svm" where
  "fit lib self X0 y0 vectorized =
     (case fit_validate (kernel_obj self) vectorized of
        Inl e \<Rightarrow> (Some e, self)
      | Inr vec \<Rightarrow>
          (case check_X_y lib X0 y0 of
             Inl e \<Rightarrow> (Some e, self)
           | Inr (X, y1) \<Rightarrow>
              (case unique_labels lib y1 of
                 Inl e \<Rightarrow> (Some e, self)
               | Inr cls \<Rightarrow>
                  (let self1 = self\<lparr>classes := Some cls\<rparr>;
                       y = remap_labels y1;
                       initial_alphas = rand lib (nrows X) in
                   case minimize lib (\<lambda>a. choose_loss (kernel_obj self) vec a X y)
                          initial_alphas y of
                     Inl e \<Rightarrow> (Some e, self1)
                   | Inr x \<Rightarrow>
                      (let self2 = self1\<lparr>opt_result := Some x\<rparr>;
                           sv_idx = np_where (\<lambda>a. a > sv_threshold) x in
                       case take_rows X sv_idx of
                         Inl e \<Rightarrow> (Some e, self2)
                       | Inr sX \<Rightarrow>
                          (let self3 = self2\<lparr>sup_X := Some sX\<rparr> in
                           case take1 y sv_idx of
                             Inl e \<Rightarrow> (Some e, self3)
                           | Inr sy \<Rightarrow>
                              (let self4 = self3\<lparr>sup_y := Some sy\<rparr> in
                               case take1 x sv_idx of
                                 Inl e \<Rightarrow> (Some e, self4)
                               | Inr sa \<Rightarrow>
                                  (let self5 = self4\<lparr>sup_alphas := Some sa\<rparr> in
                                   case compute_offset self5 of
                                     Inl e \<Rightarrow> (Some e, self5)
                                   | Inr off \<Rightarrow>
                                       (None, self5\<lparr>offset := Some off\<rparr>)))))))))"

text \<open>
  \<open>check_is_fitted\<close>: every attribute named in the call has been assigned.
\<close>

definition check_is_fitted :: "svm \<Rightarrow> bool" where
  "check_is_fitted self =
     (opt_result self \<noteq> None \<and> sup_X self \<noteq> None \<and> sup_y self \<noteq> None \<and>
      sup_alphas self \<noteq> None \<and> offset self \<noteq> None)"







text \<open>
  Inputs for the examples below: libraries that accept every input and whose
  minimizer returns a fixed vector, a new estimator with the linear kernel,
  and three training points on a line.
\<close>

definition example_library :: library where
  "example_library =
     \<lparr>check_X_y = (\<lambda>X y. Inr (X, y)), unique_labels = (\<lambda>y. Inr y),
      check_array = (\<lambda>X. Inr X), minimize = (\<lambda>f x0 c. Inr [1/2, 0, 1/4]),
      rand = (\<lambda>n. replicate n (1/2))\<rparr>"


definition example_svm :: svm where
  "example_svm = \<lparr>kernel_obj = LinearKernel, classes = None, opt_result = None, sup_X = None,
                  sup_y = None, sup_alphas = None, offset = None\<rparr>"

definition example_X :: array2 where
  "example_X = \<lparr>nrows = 3, ncols = 1, elem = (\<lambda>i j. real i + 1)\<rparr>"

section \<open>Optimizers (optimizer.py)\<close>

text \<open>
  \<open>layer_update\<close> receives numpy arrays by reference and the momentum strategy
  assigns into them, so the arrays live in a store: a reference names a
  one-dimensional array (a bias gradient, a bias vector) or a two-dimensional
  one (a weight gradient, a weight matrix), and \<open>fresh\<close> is the next reference
  that is not in use. An arithmetic expression builds a new array.
\<close>

type_synonym ref = nat

record heap =
  arr1 :: "ref \<Rightarrow> real list"
  arr2 :: "ref \<Rightarrow> array2"
  fresh :: ref

definition alloc1 :: "heap \<Rightarrow> real list \<Rightarrow> ref \<times> heap" where
  "alloc1 h xs = (fresh h, h\<lparr>arr1 := (arr1 h)(fresh h := xs), fresh := Suc (fresh h)\<rparr>)"

definition alloc2 :: "heap \<Rightarrow> array2 \<Rightarrow> ref \<times> heap" where
  "alloc2 h A = (fresh h, h\<lparr>arr2 := (arr2 h)(fresh h := A), fresh := Suc (fresh h)\<rparr>)"

text \<open>\<open>np.zeros\<close>\<close>

definition zeros1 :: "nat \<Rightarrow> real list" where
  "zeros1 n = replicate n 0"

definition zeros2 :: "nat \<Rightarrow> nat \<Rightarrow> array2" where
  "zeros2 m n = \<lparr>nrows = m, ncols = n, elem = (\<lambda>i j. 0)\<rparr>"

text \<open>The network whose layers are updated: \<open>mlp.W\<close> and \<open>mlp.b\<close>, lists of arrays.\<close>

record mlp =
  mlp_W :: "ref list"
  mlp_b :: "ref list"

text \<open>Indexing a Python list of length \<open>n\<close>: a negative index counts from the end.\<close>

definition list_index :: "nat \<Rightarrow> int \<Rightarrow> nat option" where
  "list_index n i =
     (if 0 \<le> i \<and> i < int n then Some (nat i)
      else if - int n \<le> i \<and> i < 0 then Some (nat (int n + i))
      else None)"

text \<open>A float that may be \<open>np.inf\<close>, the default of \<open>clip_thresh\<close>.\<close>

datatype pyfloat = Float real | PosInf

text \<open>
  The attributes of the two strategies. (The lists \<open>vW_\<close>, \<open>vb_\<close>, \<open>cW_\<close> and
  \<open>cb_\<close> of the source hold one array per layer.)
\<close>

record optimizer =
  lr :: real

record momentum = optimizer +
  mu :: real
  reg :: real
  clip_thresh :: pyfloat
  vW :: "ref list"
  vb :: "ref list"

record adagrad = optimizer +
  epsilon :: real
  cW :: "ref list"
  cb :: "ref list"

text \<open>
  The loop of both constructors (lines 56 to 58 and 148 to 150) over
  \<open>M = [D] + hidden_layer_sizes + [K]\<close>: a zero matrix of shape
  \<open>(M[i], M[i+1])\<close> and a zero vector of length \<open>M[i+1]\<close> per layer. It
  overwrites every \<open>None\<close> the lists were created with.
\<close>

fun alloc_layers :: "nat list \<Rightarrow> heap \<Rightarrow> ref list \<times> ref list \<times> heap" where
  "alloc_layers (m # n # rest) h =
     (let (rW, h1) = alloc2 h (zeros2 m n);
          (rb, h2) = alloc1 h1 (zeros1 n);
          (rWs, rbs, h3) = alloc_layers (n # rest) h2
      in (rW # rWs, rb # rbs, h3))"
| "alloc_layers M h = ([], [], h)"

definition MomentumOptimizer_init ::
  "nat \<Rightarrow> nat \<Rightarrow> nat list \<Rightarrow> real \<Rightarrow> real \<Rightarrow> real \<Rightarrow> pyfloat \<Rightarrow> heap \<Rightarrow> momentum \<times> heap" where
  "MomentumOptimizer_init D K hidden_layer_sizes lr0 mu0 reg0 clip0 h =
     (let (rWs, rbs, h1) = alloc_layers ([D] @ hidden_layer_sizes @ [K]) h
      in (\<lparr>lr = lr0, mu = mu0, reg = reg0, clip_thresh = clip0, vW = rWs, vb = rbs\<rparr>, h1))"

definition AdaGradOptimizer_init ::
  "nat \<Rightarrow> nat \<Rightarrow> nat list \<Rightarrow> real \<Rightarrow> real \<Rightarrow> heap \<Rightarrow> adagrad \<times> heap" where
  "AdaGradOptimizer_init D K hidden_layer_sizes lr0 epsilon0 h =
     (let (rWs, rbs, h1) = alloc_layers ([D] @ hidden_layer_sizes @ [K]) h
      in (\<lparr>lr = lr0, epsilon = epsilon0, cW = rWs, cb = rbs\<rparr>, h1))"

text \<open>
  The masked assignments \<open>g[g > clip_thresh] = clip_thresh\<close> and
  \<open>g[g < -1*clip_thresh] = -1*clip_thresh\<close>, entry by entry.
\<close>

definition clip_gt :: "pyfloat \<Rightarrow> real \<Rightarrow> real" where
  "clip_gt t g = (case t of Float c \<Rightarrow> (if g > c then c else g) | PosInf \<Rightarrow> g)"

definition clip_lt :: "pyfloat \<Rightarrow> real \<Rightarrow> real" where
  "clip_lt t g = (case t of Float c \<Rightarrow> (if g < -1 * c then -1 * c else g) | PosInf \<Rightarrow> g)"

text \<open>\<open>A.max()\<close> and \<open>A.min()\<close>, which raise on an array without entries.\<close>

definition np_max :: "array2 \<Rightarrow> error + real" where
  "np_max A =
     (if entries A = [] then Inl (ValueError ''numpy: zero-size array to reduction operation'')
      else Inr (Max (set (entries A))))"

definition np_min :: "array2 \<Rightarrow> error + real" where
  "np_min A =
     (if entries A = [] then Inl (ValueError ''numpy: zero-size array to reduction operation'')
      else Inr (Min (set (entries A))))"

text \<open>
  Python's \<open>max(a, b, key=abs)\<close> and \<open>max((a, b))\<close>: the first of the largest.
\<close>

definition max_key_abs :: "real \<Rightarrow> real \<Rightarrow> real" where
  "max_key_abs a b = (if \<bar>b\<bar> > \<bar>a\<bar> then b else a)"

definition py_max :: "real \<Rightarrow> real \<Rightarrow> real" where
  "py_max a b = (if b > a then b else a)"

text \<open>
  The four assignments that clip the gradients (lines 94 to 97). They write
  into the arrays the caller passed.
\<close>

definition clip_gradients :: "pyfloat \<Rightarrow> ref \<Rightarrow> ref \<Rightarrow> heap \<Rightarrow> heap" where
  "clip_gradients t dJdW_i dJdb_i h =
     (let h1 = h\<lparr>arr2 := (arr2 h)(dJdW_i := map_array2 (clip_gt t) (arr2 h dJdW_i))\<rparr>;
          h2 = h1\<lparr>arr2 := (arr2 h1)(dJdW_i := map_array2 (clip_lt t) (arr2 h1 dJdW_i))\<rparr>;
          h3 = h2\<lparr>arr1 := (arr1 h2)(dJdb_i := map (clip_gt t) (arr1 h2 dJdb_i))\<rparr>;
          h4 = h3\<lparr>arr1 := (arr1 h3)(dJdb_i := map (clip_lt t) (arr1 h3 dJdb_i))\<rparr>
      in h4)"

text \<open>
  \<open>grad_max = max((grad_max, max(dJdW_i.max(), dJdW_i.min(), key=abs)))\<close>
  (lines 100 to 101 and 182 to 183).
\<close>

definition update_grad_max :: "real \<Rightarrow> array2 \<Rightarrow> error + real" where
  "update_grad_max grad_max A =
     (case np_max A of
        Inl e \<Rightarrow> Inl e
      | Inr mx \<Rightarrow>
         (case np_min A of
            Inl e \<Rightarrow> Inl e
          | Inr mn \<Rightarrow> Inr (py_max grad_max (max_key_abs mx mn))))"

text \<open>
  \<open>MomentumOptimizer.layer_update\<close> (lines 60 to 114). The result is what the
  call returns or raises, with the optimizer and the store as it leaves them.
  The returned updates are the new velocity arrays themselves.
\<close>

definition Momentum_layer_update ::
  "momentum \<Rightarrow> mlp \<Rightarrow> int \<Rightarrow> ref \<Rightarrow> ref \<Rightarrow> real \<Rightarrow> heap \<Rightarrow>
   (error + (ref \<times> ref \<times> real)) \<times> momentum \<times> heap" where
  "Momentum_layer_update self net i dJdW_i dJdb_i grad_max h =
     (case list_index (length (mlp_W net)) i of
        None \<Rightarrow> (Inl IndexError, self, h)
      | Some iW \<Rightarrow>
     (case list_index (length (mlp_b net)) i of
        None \<Rightarrow> (Inl IndexError, self, h)
      | Some ib \<Rightarrow>
     (let W_i = mlp_W net ! iW;
          b_i = mlp_b net ! ib;
          h4 = clip_gradients (clip_thresh self) dJdW_i dJdb_i h
      in
     (case update_grad_max grad_max (arr2 h4 dJdW_i) of
        Inl e \<Rightarrow> (Inl e, self, h4)
      | Inr grad_max1 \<Rightarrow>
     (case broadcast2 (\<lambda>g w. g - reg self * w) (arr2 h4 dJdW_i) (arr2 h4 W_i) of
        Inl e \<Rightarrow> (Inl e, self, h4)
      | Inr gW \<Rightarrow>
     (case broadcast1 (\<lambda>g w. g - reg self * w) (arr1 h4 dJdb_i) (arr1 h4 b_i) of
        Inl e \<Rightarrow> (Inl e, self, h4)
      | Inr gb \<Rightarrow>
     (case list_index (length (vW self)) i of
        None \<Rightarrow> (Inl IndexError, self, h4)
      | Some jW \<Rightarrow>
     (case broadcast2 (\<lambda>v g. mu self * v + lr self * g) (arr2 h4 (vW self ! jW)) gW of
        Inl e \<Rightarrow> (Inl e, self, h4)
      | Inr new_vW \<Rightarrow>
     (case alloc2 h4 new_vW of (rW, h5) \<Rightarrow>
     (let self1 = self\<lparr>vW := (vW self)[jW := rW]\<rparr> in
     (case list_index (length (vb self1)) i of
        None \<Rightarrow> (Inl IndexError, self1, h5)
      | Some jb \<Rightarrow>
     (case broadcast1 (\<lambda>v g. mu self1 * v + lr self1 * g) (arr1 h5 (vb self1 ! jb)) gb of
        Inl e \<Rightarrow> (Inl e, self1, h5)
      | Inr new_vb \<Rightarrow>
     (case alloc1 h5 new_vb of (rb, h6) \<Rightarrow>
     (let self2 = self1\<lparr>vb := (vb self1)[jb := rb]\<rparr>
      in (Inr (vW self2 ! jW, vb self2 ! jb, grad_max1), self2, h6)))))))))))))))"

text \<open>\<open>AdaGradOptimizer.layer_update\<close> (lines 152 to 193).\<close>

definition AdaGrad_layer_update ::
  "adagrad \<Rightarrow> mlp \<Rightarrow> int \<Rightarrow> ref \<Rightarrow> ref \<Rightarrow> real \<Rightarrow> heap \<Rightarrow>
   (error + (ref \<times> ref \<times> real)) \<times> adagrad \<times> heap" where
  "AdaGrad_layer_update self net i dJdW_i dJdb_i grad_max h =
     (case update_grad_max grad_max (arr2 h dJdW_i) of
        Inl e \<Rightarrow> (Inl e, self, h)
      | Inr grad_max1 \<Rightarrow>
     (case list_index (length (cW self)) i of
        None \<Rightarrow> (Inl IndexError, self, h)
      | Some jW \<Rightarrow>
     (case broadcast2 (\<lambda>c g. c + g ^ 2) (arr2 h (cW self ! jW)) (arr2 h dJdW_i) of
        Inl e \<Rightarrow> (Inl e, self, h)
      | Inr new_cW \<Rightarrow>
     (case alloc2 h new_cW of (rW, h1) \<Rightarrow>
     (let self1 = self\<lparr>cW := (cW self)[jW := rW]\<rparr> in
     (case list_index (length (cb self1)) i of
        None \<Rightarrow> (Inl IndexError, self1, h1)
      | Some jb \<Rightarrow>
     (case broadcast1 (\<lambda>c g. c + g ^ 2) (arr1 h1 (cb self1 ! jb)) (arr1 h1 dJdb_i) of
        Inl e \<Rightarrow> (Inl e, self1, h1)
      | Inr new_cb \<Rightarrow>
     (case alloc1 h1 new_cb of (rb, h2) \<Rightarrow>
     (let self2 = self1\<lparr>cb := (cb self1)[jb := rb]\<rparr> in
     (case broadcast2 (\<lambda>g c. lr self2 * (g / sqrt (c + epsilon self2)))
             (arr2 h2 dJdW_i) (arr2 h2 (cW self2 ! jW)) of
        Inl e \<Rightarrow> (Inl e, self2, h2)
      | Inr w_update \<Rightarrow>
     (case broadcast1 (\<lambda>g c. lr self2 * (g / sqrt (c + epsilon self2)))
             (arr1 h2 dJdb_i) (arr1 h2 (cb self2 ! jb)) of
        Inl e \<Rightarrow> (Inl e, self2, h2)
      | Inr b_update \<Rightarrow>
     (case alloc2 h2 w_update of (uW, h3) \<Rightarrow>
     (case alloc1 h3 b_update of (ub, h4) \<Rightarrow>
        (Inr (uW, ub, grad_max1), self2, h4))))))))))))))"

text \<open>
  What the clipping does to one gradient entry \<open>g\<close>, in the claim's words: an
  entry within the threshold keeps its value, an entry above the threshold
  becomes \<open>clip_thresh\<close> and an entry below its negative becomes
  \<open>-clip_thresh\<close> (with a negative threshold every entry exceeds it in
  magnitude and becomes \<open>-clip_thresh\<close>).
\<close>

definition clipped :: "pyfloat \<Rightarrow> real \<Rightarrow> real \<Rightarrow> bool" where
  "clipped t g g' =
     (case t of
        PosInf \<Rightarrow> g' = g
      | Float c \<Rightarrow>
          (if \<bar>g\<bar> \<le> c then g' = g else if 0 \<le> c \<and> c < g then g' = c else g' = - c))"

text \<open>
  Inputs for the examples below: a network of one layer with one input and
  two outputs. Reference 0 is the gradient (weights \<open>[[-5, 1]]\<close>, biases
  \<open>[-3, 2]\<close>), reference 1 the layer's weights and biases, reference 2 the
  optimizer's velocity or cache, all zero.
\<close>

definition example_gradient :: array2 where
  "example_gradient = \<lparr>nrows = 1, ncols = 2, elem = (\<lambda>i j. if j = 0 then -5 else 1)\<rparr>"

definition example_heap :: heap where
  "example_heap =
     \<lparr>arr1 = (\<lambda>r. if r = 0 then [-3, 2] else [0, 0]),
      arr2 = (\<lambda>r. if r = 0 then example_gradient else zeros2 1 2),
      fresh = 3\<rparr>"

definition example_mlp :: mlp where
  "example_mlp = \<lparr>mlp_W = [1], mlp_b = [1]\<rparr>"

definition example_momentum :: momentum where
  "example_momentum = \<lparr>lr = 1/10, mu = 0, reg = 0, clip_thresh = PosInf, vW = [2], vb = [2]\<rparr>"

definition clip_momentum :: momentum where
  "clip_momentum = example_momentum\<lparr>clip_thresh := Float 2\<rparr>"

definition example_adagrad :: adagrad where
  "example_adagrad = \<lparr>lr = 1/10, epsilon = 1/100, cW = [2], cb = [2]\<rparr>"

text \<open>An AdaGrad optimizer with learning rate 0, and two calls with the same gradient.\<close>

definition zero_lr_adagrad :: adagrad where
  "zero_lr_adagrad = example_adagrad\<lparr>lr := 0\<rparr>"

definition zero_lr_first :: "(error + (ref \<times> ref \<times> real)) \<times> adagrad \<times> heap" where
  "zero_lr_first = AdaGrad_layer_update zero_lr_adagrad example_mlp 0 0 0 0 example_heap"

definition zero_lr_second :: "(error + (ref \<times> ref \<times> real)) \<times> adagrad \<times> heap" where
  "zero_lr_second =
     AdaGrad_layer_update (fst (snd zero_lr_first)) example_mlp 0 0 0 0 (snd (snd zero_lr_first))"

section \<open>Arrays and kernels\<close>


lemma bidx_lt: "i < n \<Longrightarrow> bidx n i = i"
  by (auto simp: bidx_def)




lemma broadcast1_same:
  assumes "length xs = length ys"
  shows "broadcast1 f xs ys = Inr (map2 f xs ys)"
proof -
  have "map (\<lambda>i. f (xs ! bidx (length xs) i) (ys ! bidx (length ys) i)) [0..<length ys]
        = map2 f xs ys"
    using assms by (intro nth_equalityI) (simp_all add: bidx_lt)
  then show ?thesis
    using assms by (simp add: broadcast1_def bdim_def)
qed





section \<open>The two losses\<close>







section \<open>Fitting\<close>

lemma take1_Inr:
  "take1 xs idx = Inr v \<Longrightarrow> v = map (\<lambda>i. xs ! i) idx \<and> list_all (\<lambda>i. i < length xs) idx"
  by (auto simp: take1_def split: if_splits)

lemma take_rows_Inr:
  "take_rows A idx = Inr B \<Longrightarrow>
     nrows B = length idx \<and> ncols B = ncols A \<and> rows_of B = map (row A) idx
     \<and> list_all (\<lambda>i. i < nrows A) idx"
  by (auto simp: take_rows_def rows_of_def row_def split: if_splits intro!: nth_equalityI)

lemma set_np_where: "set (np_where P xs) = {i. i < length xs \<and> P (xs ! i)}"
  by (auto simp: np_where_def)



text \<open>
  The entry check of \<open>fit\<close> for a kernel that has a name, as every instance
  of the five classes does: the validation error is raised exactly when
  \<open>vectorized\<close> is true and the name is not \<open>linear\<close>; otherwise an unspecified
  \<open>vectorized\<close> becomes true for the name \<open>linear\<close> and false for any other.
\<close>

lemma fit_validate_named:
  assumes "kernel_name k = Inr nm"
  shows "fit_validate k vectorized =
         (if vectorized = Some True \<and> nm \<noteq> ''linear''
          then Inl (ValueError ''Vectorized loss only works with linear kernel right now.'')
          else Inr (case vectorized of None \<Rightarrow> nm = ''linear'' | Some v \<Rightarrow> v))"
  using assms by (auto simp: fit_validate_def default_vectorized_def)

lemma fit_validate_raises:
  "fit_validate (kernel_obj self) vectorized = Inl e \<Longrightarrow>
   fit lib self X0 y0 vectorized = (Some e, self)"
  by (simp add: fit_def)

text \<open>
  C4. An estimator constructed with a callable that is not an instance of a
  kernel class, as the docstring of the class allows: the entry check of \<open>fit\<close>
  reads the attribute \<open>name\<close> of the kernel and the call raises
  \<open>AttributeError\<close>, with \<open>vectorized\<close> left unspecified, where the claim has
  \<open>fit\<close> pass the check with \<open>vectorized\<close> set to false.
\<close>

theorem fit_callable_kernel:
  "SVM_init PyCallable [] =
     Inr \<lparr>kernel_obj = Callable, classes = None, opt_result = None, sup_X = None,
          sup_y = None, sup_alphas = None, offset = None\<rparr>
   \<and> fit example_library
        \<lparr>kernel_obj = Callable, classes = None, opt_result = None, sup_X = None,
         sup_y = None, sup_alphas = None, offset = None\<rparr> example_X [0, 1, 1] None
     = (Some AttributeError,
        \<lparr>kernel_obj = Callable, classes = None, opt_result = None, sup_X = None,
         sup_y = None, sup_alphas = None, offset = None\<rparr>)"
  by (simp add: SVM_init_def fit_def fit_validate_def kernel_name_def)

text \<open>
  C5. After a call of \<open>fit\<close> that returns, the three stored arrays have one
  length, every stored dual variable is above the threshold, and the stored
  rows, labels and dual variables are those of the training examples at the
  indices where the optimizer's result is above the threshold, all of which
  are indices of training examples.
\<close>

theorem fit_support_vectors:
  assumes "fit lib self X0 y0 vectorized = (None, self')"
  shows "\<exists>X y1 x SX sy sa.
           check_X_y lib X0 y0 = Inr (X, y1) \<and> opt_result self' = Some x
         \<and> sup_X self' = Some SX \<and> sup_y self' = Some sy \<and> sup_alphas self' = Some sa
         \<and> nrows SX = length sa \<and> length sy = length sa
         \<and> list_all (\<lambda>a. a > sv_threshold) sa
         \<and> list_all (\<lambda>i. i < nrows X \<and> i < length y1) (np_where (\<lambda>a. a > sv_threshold) x)
         \<and> sa = map (\<lambda>i. x ! i) (np_where (\<lambda>a. a > sv_threshold) x)
         \<and> sy = map (\<lambda>i. remap_labels y1 ! i) (np_where (\<lambda>a. a > sv_threshold) x)
         \<and> rows_of SX = map (row X) (np_where (\<lambda>a. a > sv_threshold) x)"
  using assms
  apply (simp add: fit_def fit_validate_def Let_def split: sum.splits if_splits prod.splits)
  apply (auto dest!: take1_Inr take_rows_Inr simp: set_np_where list_all_iff remap_labels_def)
  done

lemma example_where: "np_where (\<lambda>a. a > sv_threshold) [1/2, 0, 1/4] = [0, 2]"
  by (simp add: np_where_def sv_threshold_def upt_rec)


lemma example_fit_values:
  "fst (fit example_library example_svm example_X [0, 1, 1] None) = None
 \<and> sup_alphas (snd (fit example_library example_svm example_X [0, 1, 1] None)) = Some [1/2, 1/4]
 \<and> sup_y (snd (fit example_library example_svm example_X [0, 1, 1] None)) = Some [-1, 1]
 \<and> offset (snd (fit example_library example_svm example_X [0, 1, 1] None)) = Some (- (5/4))"
  by (simp add: fit_def fit_validate_def default_vectorized_def example_library_def
      example_svm_def example_X_def kernel_name_def Let_def example_where take_rows_def take1_def remap_labels_def
      compute_offset_def getitem_def rows_of_def row_def transform_def dot11_def upt_rec)

theorem fit_support_vectors_witness:
  "fst (fit example_library example_svm example_X [0, 1, 1] None) = None
   \<and> sup_alphas (snd (fit example_library example_svm example_X [0, 1, 1] None)) = Some [1/2, 1/4]
   \<and> sup_y (snd (fit example_library example_svm example_X [0, 1, 1] None)) = Some [-1, 1]
   \<and> (\<exists>X y1 x SX sy sa.
           check_X_y example_library example_X [0, 1, 1] = Inr (X, y1)
         \<and> opt_result (snd (fit example_library example_svm example_X [0, 1, 1] None)) = Some x
         \<and> sup_X (snd (fit example_library example_svm example_X [0, 1, 1] None)) = Some SX
         \<and> sup_y (snd (fit example_library example_svm example_X [0, 1, 1] None)) = Some sy
         \<and> sup_alphas (snd (fit example_library example_svm example_X [0, 1, 1] None)) = Some sa
         \<and> nrows SX = length sa \<and> length sy = length sa
         \<and> list_all (\<lambda>a. a > sv_threshold) sa
         \<and> list_all (\<lambda>i. i < nrows X \<and> i < length y1) (np_where (\<lambda>a. a > sv_threshold) x)
         \<and> sa = map (\<lambda>i. x ! i) (np_where (\<lambda>a. a > sv_threshold) x)
         \<and> sy = map (\<lambda>i. remap_labels y1 ! i) (np_where (\<lambda>a. a > sv_threshold) x)
         \<and> rows_of SX = map (row X) (np_where (\<lambda>a. a > sv_threshold) x))"
proof -
  have f: "fit example_library example_svm example_X [0, 1, 1] None
           = (None, snd (fit example_library example_svm example_X [0, 1, 1] None))"
    using example_fit_values by (simp add: prod_eq_iff)
  show ?thesis
    using example_fit_values fit_support_vectors [OF f] by (intro conjI) simp_all
qed

text \<open>A call of \<open>fit\<close> that returns leaves a fitted estimator with a kernel of one of the classes.\<close>

lemma fit_fitted:
  assumes "fit lib self X0 y0 vectorized = (None, self')"
  shows "check_is_fitted self' \<and> kernel_obj self' \<noteq> Callable"
  using assms
  by (auto simp: fit_def fit_validate_def Let_def check_is_fitted_def kernel_name_def
      split: sum.splits if_splits prod.splits kernel.splits)




section \<open>Prediction\<close>






section \<open>Optimizer updates\<close>

text \<open>
  The constructors store their parameters and create, for every layer, a zero
  matrix and a zero vector of the layer's shape: velocities and caches start
  at zero.
\<close>

lemma alloc_layers_step:
  "alloc_layers (m # n # rest) h =
     (case alloc_layers (n # rest)
             (h\<lparr>arr2 := (arr2 h)(fresh h := zeros2 m n),
                arr1 := (arr1 h)(Suc (fresh h) := zeros1 n),
                fresh := Suc (Suc (fresh h))\<rparr>) of
        (rWs, rbs, h') \<Rightarrow> (fresh h # rWs, Suc (fresh h) # rbs, h'))"
  by (simp add: alloc2_def alloc1_def Let_def split: prod.splits)

lemma alloc_layers_zero:
  assumes "alloc_layers M h = (rWs, rbs, h')"
  shows "length rWs = length M - 1 \<and> length rbs = length M - 1
       \<and> fresh h \<le> fresh h'
       \<and> (\<forall>r<fresh h. arr2 h' r = arr2 h r \<and> arr1 h' r = arr1 h r)
       \<and> (\<forall>j<length M - 1.
             fresh h \<le> rWs ! j \<and> rWs ! j < fresh h' \<and> fresh h \<le> rbs ! j \<and> rbs ! j < fresh h'
           \<and> arr2 h' (rWs ! j) = zeros2 (M ! j) (M ! Suc j)
           \<and> arr1 h' (rbs ! j) = zeros1 (M ! Suc j))"
  using assms
proof (induction M arbitrary: h rWs rbs h')
  case Nil
  then show ?case by simp
next
  case (Cons m M)
  show ?case
  proof (cases M)
    case Nil
    with Cons.prems show ?thesis by simp
  next
    case (Cons n rest)
    let ?h2 = "h\<lparr>arr2 := (arr2 h)(fresh h := zeros2 m n),
                arr1 := (arr1 h)(Suc (fresh h) := zeros1 n),
                fresh := Suc (Suc (fresh h))\<rparr>"
    obtain rWs' rbs' where rec: "alloc_layers M ?h2 = (rWs', rbs', h')"
      and rW: "rWs = fresh h # rWs'" and rb: "rbs = Suc (fresh h) # rbs'"
      using Cons.prems unfolding Cons alloc_layers_step by (auto split: prod.splits)
    note IH = Cons.IH[OF rec]
    have len: "length rWs = length (m # M) - 1" "length rbs = length (m # M) - 1"
      using IH rW rb Cons by simp_all
    have fr: "fresh h \<le> fresh h'" using IH by simp
    have frame: "\<forall>r<fresh h. arr2 h' r = arr2 h r \<and> arr1 h' r = arr1 h r"
      using IH by simp
    have first: "arr2 h' (fresh h) = zeros2 m n" "arr1 h' (Suc (fresh h)) = zeros1 n"
      using IH by simp_all
    have each: "fresh h \<le> rWs ! j \<and> rWs ! j < fresh h' \<and> fresh h \<le> rbs ! j \<and> rbs ! j < fresh h'
           \<and> arr2 h' (rWs ! j) = zeros2 ((m # M) ! j) ((m # M) ! Suc j)
           \<and> arr1 h' (rbs ! j) = zeros1 ((m # M) ! Suc j)" if "j < length (m # M) - 1" for j
    proof (cases j)
      case 0
      then show ?thesis using IH rW rb first Cons by simp
    next
      case (Suc j')
      then have "j' < length M - 1" using that by simp
      with IH have "fresh ?h2 \<le> rWs' ! j' \<and> rWs' ! j' < fresh h' \<and> fresh ?h2 \<le> rbs' ! j'
           \<and> rbs' ! j' < fresh h'
           \<and> arr2 h' (rWs' ! j') = zeros2 (M ! j') (M ! Suc j')
           \<and> arr1 h' (rbs' ! j') = zeros1 (M ! Suc j')" by blast
      then show ?thesis using Suc rW rb by simp
    qed
    from len fr frame each show ?thesis by blast
  qed
qed

lemma MomentumOptimizer_init_zero:
  assumes "MomentumOptimizer_init D K hs lr0 mu0 reg0 clip0 h = (self, h')"
  shows "lr self = lr0 \<and> mu self = mu0 \<and> reg self = reg0 \<and> clip_thresh self = clip0
       \<and> length (vW self) = Suc (length hs) \<and> length (vb self) = Suc (length hs)
       \<and> (\<forall>j\<le>length hs.
             arr2 h' (vW self ! j) = zeros2 ((D # hs @ [K]) ! j) ((D # hs @ [K]) ! Suc j)
           \<and> arr1 h' (vb self ! j) = zeros1 ((D # hs @ [K]) ! Suc j))"
proof -
  obtain rWs rbs where a: "alloc_layers (D # hs @ [K]) h = (rWs, rbs, h')"
    and s: "self = \<lparr>lr = lr0, mu = mu0, reg = reg0, clip_thresh = clip0, vW = rWs, vb = rbs\<rparr>"
    using assms by (auto simp: MomentumOptimizer_init_def split: prod.splits)
  from alloc_layers_zero[OF a] s show ?thesis
    by (simp add: less_Suc_eq_le)
qed

lemma AdaGradOptimizer_init_zero:
  assumes "AdaGradOptimizer_init D K hs lr0 eps0 h = (self, h')"
  shows "lr self = lr0 \<and> epsilon self = eps0
       \<and> length (cW self) = Suc (length hs) \<and> length (cb self) = Suc (length hs)
       \<and> (\<forall>j\<le>length hs.
             arr2 h' (cW self ! j) = zeros2 ((D # hs @ [K]) ! j) ((D # hs @ [K]) ! Suc j)
           \<and> arr1 h' (cb self ! j) = zeros1 ((D # hs @ [K]) ! Suc j))"
proof -
  obtain rWs rbs where a: "alloc_layers (D # hs @ [K]) h = (rWs, rbs, h')"
    and s: "self = \<lparr>lr = lr0, epsilon = eps0, cW = rWs, cb = rbs\<rparr>"
    using assms by (auto simp: AdaGradOptimizer_init_def split: prod.splits)
  from alloc_layers_zero[OF a] s show ?thesis
    by (simp add: less_Suc_eq_le)
qed

lemma entries_nonempty: "0 < nrows A \<Longrightarrow> 0 < ncols A \<Longrightarrow> entries A \<noteq> []"
  by (auto simp: entries_def rows_of_def row_def)

lemma update_grad_max_Inr:
  "0 < nrows A \<Longrightarrow> 0 < ncols A \<Longrightarrow> \<exists>m. update_grad_max gm A = Inr m"
  by (simp add: update_grad_max_def np_max_def np_min_def entries_nonempty)

lemma broadcast2_same:
  assumes "nrows A = nrows B" "ncols A = ncols B"
  shows "broadcast2 f A B =
         Inr \<lparr>nrows = nrows B, ncols = ncols B,
              elem = (\<lambda>i j. f (elem A (bidx (nrows B) i) (bidx (ncols B) j))
                              (elem B (bidx (nrows B) i) (bidx (ncols B) j)))\<rparr>"
  using assms by (simp add: broadcast2_def bdim_def)

lemma list_index_Some: "list_index n i = Some j \<Longrightarrow> j < n"
  by (auto simp: list_index_def split: if_splits)

lemma clip_gradients_PosInf: "clip_gradients PosInf rW rb h = h"
proof -
  have "map_array2 (clip_gt PosInf) A = A" "map_array2 (clip_lt PosInf) A = A" for A
    by (simp_all add: map_array2_def clip_gt_def clip_lt_def)
  moreover have "map (clip_gt PosInf) xs = xs" "map (clip_lt PosInf) xs = xs" for xs
    by (simp_all add: clip_gt_def clip_lt_def list_eq_iff_nth_eq)
  ultimately show ?thesis
    by (simp add: clip_gradients_def Let_def)
qed

lemma example_entries: "entries example_gradient = [-5, 1]"
  by (simp add: entries_def rows_of_def row_def example_gradient_def upt_rec)

lemma example_grad_max: "update_grad_max 0 example_gradient = Inr 0"
  by (simp add: update_grad_max_def np_max_def np_min_def example_entries max_key_abs_def
      py_max_def)

lemma example_shape: "nrows example_gradient = 1" "ncols example_gradient = 2"
  by (simp_all add: example_gradient_def)

lemma example_elems: "elem example_gradient 0 0 = -5" "elem example_gradient 0 (Suc 0) = 1"
  by (simp_all add: example_gradient_def)

lemma example_heap_simps:
  "arr2 example_heap 0 = example_gradient" "arr2 example_heap 2 = zeros2 1 2"
  "arr1 example_heap 0 = [-3, 2]" "arr1 example_heap 2 = [0, 0]" "fresh example_heap = 3"
  "arr2 example_heap (Suc r) = zeros2 1 2" "arr1 example_heap (Suc r) = [0, 0]"
  by (simp_all add: example_heap_def)

lemma map_array2_simps:
  "nrows (map_array2 f A) = nrows A" "ncols (map_array2 f A) = ncols A"
  "elem (map_array2 f A) i j = f (elem A i j)"
  by (simp_all add: map_array2_def)

text \<open>
  C3. A weight gradient \<open>[[-5, 1]]\<close> with running maximum 0: both strategies
  return 0 as the third value. \<open>max(1, -5, key=abs)\<close> selects the entry of
  largest magnitude, -5, with its sign, and \<open>max((0, -5))\<close> is 0: the returned
  value is neither the largest magnitude seen, 5, nor the largest gradient, 1.
\<close>

theorem grad_max_negative_entry:
  "fst (Momentum_layer_update example_momentum example_mlp 0 0 0 0 example_heap) = Inr (3, 4, 0)
 \<and> fst (AdaGrad_layer_update example_adagrad example_mlp 0 0 0 0 example_heap) = Inr (5, 6, 0)"
  by (simp add: Momentum_layer_update_def AdaGrad_layer_update_def example_momentum_def
      example_adagrad_def example_mlp_def example_heap_def clip_gradients_PosInf
      example_grad_max example_shape list_index_def broadcast2_def broadcast1_def bdim_def
      zeros2_def alloc2_def alloc1_def Let_def)

text \<open>
  C6. A momentum optimizer with \<open>mu = 0\<close>, \<open>reg = 0\<close> and
  \<open>clip_thresh = np.inf\<close>, in any state of its velocities, called on a layer
  it has with a non-empty gradient of the shape of the layer's arrays: the
  call returns, the returned weight and bias updates are \<open>lr * gradient\<close>
  entry by entry, and the optimizer keeps its parameters, so the same holds
  for every later call.
\<close>

theorem Momentum_plain_gradient:
  assumes "mu self = 0" and "reg self = 0" and "clip_thresh self = PosInf"
    and "list_index (length (mlp_W net)) i = Some iW"
    and "list_index (length (mlp_b net)) i = Some ib"
    and "list_index (length (vW self)) i = Some jW"
    and "list_index (length (vb self)) i = Some jb"
    and "nrows (arr2 h (mlp_W net ! iW)) = nrows (arr2 h dJdW_i)"
    and "ncols (arr2 h (mlp_W net ! iW)) = ncols (arr2 h dJdW_i)"
    and "nrows (arr2 h (vW self ! jW)) = nrows (arr2 h dJdW_i)"
    and "ncols (arr2 h (vW self ! jW)) = ncols (arr2 h dJdW_i)"
    and "length (arr1 h (mlp_b net ! ib)) = length (arr1 h dJdb_i)"
    and "length (arr1 h (vb self ! jb)) = length (arr1 h dJdb_i)"
    and "0 < nrows (arr2 h dJdW_i)" and "0 < ncols (arr2 h dJdW_i)"
  shows "\<exists>rW rb gm self' h'.
           Momentum_layer_update self net i dJdW_i dJdb_i grad_max h = (Inr (rW, rb, gm), self', h')
         \<and> nrows (arr2 h' rW) = nrows (arr2 h dJdW_i)
         \<and> ncols (arr2 h' rW) = ncols (arr2 h dJdW_i)
         \<and> (\<forall>r<nrows (arr2 h dJdW_i). \<forall>c<ncols (arr2 h dJdW_i).
               elem (arr2 h' rW) r c = lr self * elem (arr2 h dJdW_i) r c)
         \<and> arr1 h' rb = map (\<lambda>g. lr self * g) (arr1 h dJdb_i)
         \<and> vW self' ! jW = rW \<and> vb self' ! jb = rb
         \<and> lr self' = lr self \<and> mu self' = 0 \<and> reg self' = 0 \<and> clip_thresh self' = PosInf"
proof -
  let ?G = "arr2 h dJdW_i" and ?g = "arr1 h dJdb_i"
  let ?W = "arr2 h (mlp_W net ! iW)" and ?b = "arr1 h (mlp_b net ! ib)"
  let ?V = "arr2 h (vW self ! jW)" and ?v = "arr1 h (vb self ! jb)"
  obtain gm where gm: "update_grad_max grad_max ?G = Inr gm"
    using update_grad_max_Inr[OF assms(14,15)] by auto
  define gW where "gW = \<lparr>nrows = nrows ?W, ncols = ncols ?W,
      elem = (\<lambda>i j. elem ?G (bidx (nrows ?W) i) (bidx (ncols ?W) j)
                     - reg self * elem ?W (bidx (nrows ?W) i) (bidx (ncols ?W) j))\<rparr>"
  have b1: "broadcast2 (\<lambda>g w. g - reg self * w) ?G ?W = Inr gW"
    using assms(8,9) by (simp add: broadcast2_same gW_def)
  define gb where "gb = map2 (\<lambda>g w. g - reg self * w) ?g ?b"
  have b2: "broadcast1 (\<lambda>g w. g - reg self * w) ?g ?b = Inr gb"
    using assms(12) by (simp add: broadcast1_same gb_def)
  have gb_eq: "gb = ?g"
    using assms(2,12) unfolding gb_def by (intro nth_equalityI) simp_all
  define nW where "nW = \<lparr>nrows = nrows gW, ncols = ncols gW,
      elem = (\<lambda>i j. mu self * elem ?V (bidx (nrows gW) i) (bidx (ncols gW) j)
                     + lr self * elem gW (bidx (nrows gW) i) (bidx (ncols gW) j))\<rparr>"
  have b3: "broadcast2 (\<lambda>v g. mu self * v + lr self * g) ?V gW = Inr nW"
    using assms(8-11) by (simp add: broadcast2_same gW_def nW_def)
  define nb where "nb = map2 (\<lambda>v g. mu self * v + lr self * g) ?v gb"
  have b4: "broadcast1 (\<lambda>v g. mu self * v + lr self * g) ?v gb = Inr nb"
    using assms(13) by (simp add: broadcast1_same nb_def gb_eq)
  have nb_eq: "nb = map (\<lambda>g. lr self * g) ?g"
    using assms(1,13) unfolding nb_def gb_eq by (intro nth_equalityI) simp_all
  have nW_elem: "elem nW r c = lr self * elem ?G r c"
    if "r < nrows ?G" "c < ncols ?G" for r c
    using that assms(1,2,8,9) by (simp add: nW_def gW_def bidx_lt)
  have nW_shape: "nrows nW = nrows ?G" "ncols nW = ncols ?G"
    using assms(8,9) by (simp_all add: nW_def gW_def)
  have jW: "jW < length (vW self)" and jb: "jb < length (vb self)"
    using assms(6,7) by (auto dest: list_index_Some)
  have "Momentum_layer_update self net i dJdW_i dJdb_i grad_max h =
        (Inr (fresh h, Suc (fresh h), gm),
         self\<lparr>vW := (vW self)[jW := fresh h], vb := (vb self)[jb := Suc (fresh h)]\<rparr>,
         h\<lparr>arr2 := (arr2 h)(fresh h := nW), arr1 := (arr1 h)(Suc (fresh h) := nb),
            fresh := Suc (Suc (fresh h))\<rparr>)"
    using assms(3-7) gm b1 b2 b3 b4 jW jb
    by (simp add: Momentum_layer_update_def clip_gradients_PosInf Let_def alloc2_def alloc1_def)
  then show ?thesis
    using nW_elem nW_shape nb_eq jW jb assms(1-3) by simp
qed

theorem Momentum_plain_gradient_witness:
  "\<exists>rW rb gm self' h'.
     Momentum_layer_update example_momentum example_mlp 0 0 0 0 example_heap
       = (Inr (rW, rb, gm), self', h')
   \<and> elem (arr2 h' rW) 0 0 = - (1/2) \<and> elem (arr2 h' rW) 0 1 = 1/10
   \<and> arr1 h' rb = [- (3/10), 1/5]"
proof -
  from Momentum_plain_gradient [of example_momentum example_mlp 0 0 0 0 0 example_heap 0 0 0]
  obtain rW rb gm self' h' where
    "Momentum_layer_update example_momentum example_mlp 0 0 0 0 example_heap
       = (Inr (rW, rb, gm), self', h')"
    and e: "\<forall>r<1. \<forall>c<2. elem (arr2 h' rW) r c = 1/10 * elem example_gradient r c"
    and "arr1 h' rb = [- (3/10), 1/5]"
    by (auto simp: example_momentum_def example_mlp_def example_heap_def list_index_def
        zeros2_def example_shape)
  moreover have "elem (arr2 h' rW) 0 0 = - (1/2)" "elem (arr2 h' rW) 0 1 = 1/10"
    using e[rule_format, of 0 0] e[rule_format, of 0 1] example_elems by simp_all
  ultimately show ?thesis
    by (intro exI conjI)
qed

lemma AdaGrad_layer_update_result:
  assumes "list_index (length (cW self)) i = Some jW"
    and "list_index (length (cb self)) i = Some jb"
    and "nrows (arr2 h (cW self ! jW)) = nrows (arr2 h dJdW_i)"
    and "ncols (arr2 h (cW self ! jW)) = ncols (arr2 h dJdW_i)"
    and "length (arr1 h (cb self ! jb)) = length (arr1 h dJdb_i)"
    and "0 < nrows (arr2 h dJdW_i)" and "0 < ncols (arr2 h dJdW_i)"
    and "dJdW_i < fresh h" and "dJdb_i < fresh h"
  shows "\<exists>gm nC nc uW ub.
           AdaGrad_layer_update self net i dJdW_i dJdb_i grad_max h =
             (Inr (Suc (Suc (fresh h)), Suc (Suc (Suc (fresh h))), gm),
              self\<lparr>cW := (cW self)[jW := fresh h], cb := (cb self)[jb := Suc (fresh h)]\<rparr>,
              h\<lparr>arr2 := (arr2 h)(fresh h := nC, Suc (Suc (fresh h)) := uW),
                arr1 := (arr1 h)(Suc (fresh h) := nc, Suc (Suc (Suc (fresh h))) := ub),
                fresh := Suc (Suc (Suc (Suc (fresh h))))\<rparr>)
         \<and> nrows nC = nrows (arr2 h dJdW_i) \<and> ncols nC = ncols (arr2 h dJdW_i)
         \<and> (\<forall>r<nrows (arr2 h dJdW_i). \<forall>c<ncols (arr2 h dJdW_i).
               elem nC r c = elem (arr2 h (cW self ! jW)) r c + (elem (arr2 h dJdW_i) r c) ^ 2
             \<and> elem uW r c = lr self * (elem (arr2 h dJdW_i) r c / sqrt (elem nC r c + epsilon self)))
         \<and> length nc = length (arr1 h dJdb_i) \<and> length ub = length (arr1 h dJdb_i)
         \<and> (\<forall>k<length (arr1 h dJdb_i).
               nc ! k = arr1 h (cb self ! jb) ! k + (arr1 h dJdb_i ! k) ^ 2
             \<and> ub ! k = lr self * (arr1 h dJdb_i ! k / sqrt (nc ! k + epsilon self)))"
proof -
  let ?G = "arr2 h dJdW_i" and ?g = "arr1 h dJdb_i"
  let ?C = "arr2 h (cW self ! jW)" and ?c = "arr1 h (cb self ! jb)"
  obtain gm where gm: "update_grad_max grad_max ?G = Inr gm"
    using update_grad_max_Inr[OF assms(6,7)] by auto
  define nC where "nC = \<lparr>nrows = nrows ?G, ncols = ncols ?G,
      elem = (\<lambda>i j. elem ?C (bidx (nrows ?G) i) (bidx (ncols ?G) j)
                     + (elem ?G (bidx (nrows ?G) i) (bidx (ncols ?G) j)) ^ 2)\<rparr>"
  have b1: "broadcast2 (\<lambda>c g. c + g ^ 2) ?C ?G = Inr nC"
    using assms(3,4) by (simp add: broadcast2_same nC_def)
  define nc where "nc = map2 (\<lambda>c g. c + g ^ 2) ?c ?g"
  have b2: "broadcast1 (\<lambda>c g. c + g ^ 2) ?c ?g = Inr nc"
    using assms(5) by (simp add: broadcast1_same nc_def)
  define uW where "uW = \<lparr>nrows = nrows nC, ncols = ncols nC,
      elem = (\<lambda>i j. lr self * (elem ?G (bidx (nrows nC) i) (bidx (ncols nC) j)
                       / sqrt (elem nC (bidx (nrows nC) i) (bidx (ncols nC) j) + epsilon self)))\<rparr>"
  have b3: "broadcast2 (\<lambda>g c. lr self * (g / sqrt (c + epsilon self))) ?G nC = Inr uW"
    by (simp add: broadcast2_same nC_def uW_def)
  define ub where "ub = map2 (\<lambda>g c. lr self * (g / sqrt (c + epsilon self))) ?g nc"
  have b4: "broadcast1 (\<lambda>g c. lr self * (g / sqrt (c + epsilon self))) ?g nc = Inr ub"
    using assms(5) by (simp add: broadcast1_same nc_def ub_def)
  have jW: "jW < length (cW self)" and jb: "jb < length (cb self)"
    using assms(1,2) by (auto dest: list_index_Some)
  have ne: "dJdW_i \<noteq> fresh h" "dJdb_i \<noteq> Suc (fresh h)"
    using assms(8,9) by auto
  have run: "AdaGrad_layer_update self net i dJdW_i dJdb_i grad_max h =
             (Inr (Suc (Suc (fresh h)), Suc (Suc (Suc (fresh h))), gm),
              self\<lparr>cW := (cW self)[jW := fresh h], cb := (cb self)[jb := Suc (fresh h)]\<rparr>,
              h\<lparr>arr2 := (arr2 h)(fresh h := nC, Suc (Suc (fresh h)) := uW),
                arr1 := (arr1 h)(Suc (fresh h) := nc, Suc (Suc (Suc (fresh h))) := ub),
                fresh := Suc (Suc (Suc (Suc (fresh h))))\<rparr>)"
    using assms(1,2) gm b1 b2 b3 b4 jW jb ne
    by (simp add: AdaGrad_layer_update_def Let_def alloc2_def alloc1_def)
  have e1: "\<forall>r<nrows ?G. \<forall>c<ncols ?G.
               elem nC r c = elem ?C r c + (elem ?G r c) ^ 2
             \<and> elem uW r c = lr self * (elem ?G r c / sqrt (elem nC r c + epsilon self))"
    by (simp add: nC_def uW_def bidx_lt)
  have e2: "\<forall>k<length ?g.
               nc ! k = ?c ! k + (?g ! k) ^ 2
             \<and> ub ! k = lr self * (?g ! k / sqrt (nc ! k + epsilon self))"
    using assms(5) by (simp add: nc_def ub_def)
  have "nrows nC = nrows ?G" "ncols nC = ncols ?G" "length nc = length ?g" "length ub = length ?g"
    using assms(5) by (simp_all add: nC_def nc_def ub_def)
  with run e1 e2 show ?thesis by blast
qed

lemma shrink:
  fixes c g e l :: real
  assumes "0 \<le> c" "0 < e" "g \<noteq> 0" "l \<noteq> 0"
  shows "\<bar>l * (g / sqrt (c + g ^ 2 + g ^ 2 + e))\<bar> < \<bar>l * (g / sqrt (c + g ^ 2 + e))\<bar>"
proof -
  have g2: "0 < g ^ 2" using assms(3) by simp
  have "0 < c + g ^ 2 + e" using assms(1,2) g2 by linarith
  then have p1: "0 < sqrt (c + g ^ 2 + e)" by simp
  have lt: "sqrt (c + g ^ 2 + e) < sqrt (c + g ^ 2 + g ^ 2 + e)" using g2 by simp
  have p2: "0 < sqrt (c + g ^ 2 + g ^ 2 + e)" using p1 lt by linarith
  have pos: "0 < \<bar>l * g\<bar>" using assms(3,4) by simp
  have "\<bar>l * g\<bar> / sqrt (c + g ^ 2 + g ^ 2 + e) < \<bar>l * g\<bar> / sqrt (c + g ^ 2 + e)"
    by (rule divide_strict_left_mono[OF lt pos mult_pos_pos[OF p2 p1]])
  then show ?thesis
    using p1 p2 by (simp add: abs_mult)
qed

text \<open>
  C7, as amended. An AdaGrad optimizer with \<open>epsilon > 0\<close> and non-negative
  cache entries (they are zero at construction), called twice on a layer it
  has with the same non-empty gradient of the shape of the layer's caches:
  both calls return; the first adds the squared gradient to each cache entry,
  which therefore does not decrease and increases strictly where the gradient
  entry is not zero; the returned update is
  \<open>lr * gradient / sqrt(cache + epsilon)\<close> with the cache after the addition;
  and where the gradient entry is not zero and \<open>lr\<close> is not zero, the update
  of the second call is strictly smaller in magnitude than that of the first.
\<close>

theorem AdaGrad_cache_and_shrinkage:
  assumes "list_index (length (cW self)) i = Some jW"
    and "list_index (length (cb self)) i = Some jb"
    and "nrows (arr2 h (cW self ! jW)) = nrows (arr2 h dJdW_i)"
    and "ncols (arr2 h (cW self ! jW)) = ncols (arr2 h dJdW_i)"
    and "length (arr1 h (cb self ! jb)) = length (arr1 h dJdb_i)"
    and "0 < nrows (arr2 h dJdW_i)" and "0 < ncols (arr2 h dJdW_i)"
    and "dJdW_i < fresh h" and "dJdb_i < fresh h"
    and "0 < epsilon self"
    and "\<forall>r<nrows (arr2 h dJdW_i). \<forall>c<ncols (arr2 h dJdW_i). 0 \<le> elem (arr2 h (cW self ! jW)) r c"
    and "\<forall>k<length (arr1 h dJdb_i). 0 \<le> arr1 h (cb self ! jb) ! k"
  shows "\<exists>uW ub gm self' h' uW2 ub2 gm2 self2 h2.
           AdaGrad_layer_update self net i dJdW_i dJdb_i grad_max h = (Inr (uW, ub, gm), self', h')
         \<and> AdaGrad_layer_update self' net i dJdW_i dJdb_i gm h' = (Inr (uW2, ub2, gm2), self2, h2)
         \<and> (\<forall>r<nrows (arr2 h dJdW_i). \<forall>c<ncols (arr2 h dJdW_i).
               elem (arr2 h' (cW self' ! jW)) r c
                 = elem (arr2 h (cW self ! jW)) r c + (elem (arr2 h dJdW_i) r c) ^ 2
             \<and> elem (arr2 h (cW self ! jW)) r c \<le> elem (arr2 h' (cW self' ! jW)) r c
             \<and> (elem (arr2 h dJdW_i) r c \<noteq> 0 \<longrightarrow>
                  elem (arr2 h (cW self ! jW)) r c < elem (arr2 h' (cW self' ! jW)) r c)
             \<and> elem (arr2 h' uW) r c
                 = lr self * (elem (arr2 h dJdW_i) r c
                              / sqrt (elem (arr2 h' (cW self' ! jW)) r c + epsilon self))
             \<and> (elem (arr2 h dJdW_i) r c \<noteq> 0 \<and> lr self \<noteq> 0 \<longrightarrow>
                  \<bar>elem (arr2 h2 uW2) r c\<bar> < \<bar>elem (arr2 h' uW) r c\<bar>))
         \<and> (\<forall>k<length (arr1 h dJdb_i).
               arr1 h' (cb self' ! jb) ! k = arr1 h (cb self ! jb) ! k + (arr1 h dJdb_i ! k) ^ 2
             \<and> arr1 h (cb self ! jb) ! k \<le> arr1 h' (cb self' ! jb) ! k
             \<and> (arr1 h dJdb_i ! k \<noteq> 0 \<longrightarrow>
                  arr1 h (cb self ! jb) ! k < arr1 h' (cb self' ! jb) ! k)
             \<and> arr1 h' ub ! k
                 = lr self * (arr1 h dJdb_i ! k / sqrt (arr1 h' (cb self' ! jb) ! k + epsilon self))
             \<and> (arr1 h dJdb_i ! k \<noteq> 0 \<and> lr self \<noteq> 0 \<longrightarrow>
                  \<bar>arr1 h2 ub2 ! k\<bar> < \<bar>arr1 h' ub ! k\<bar>))"
proof -
  let ?G = "arr2 h dJdW_i" and ?g = "arr1 h dJdb_i"
  let ?C = "arr2 h (cW self ! jW)" and ?c = "arr1 h (cb self ! jb)"
  let ?f = "fresh h"
  have jW: "jW < length (cW self)" and jb: "jb < length (cb self)"
    using assms(1,2) by (auto dest: list_index_Some)
  obtain gm nC nc uW ub where
    run1: "AdaGrad_layer_update self net i dJdW_i dJdb_i grad_max h =
             (Inr (Suc (Suc ?f), Suc (Suc (Suc ?f)), gm),
              self\<lparr>cW := (cW self)[jW := ?f], cb := (cb self)[jb := Suc ?f]\<rparr>,
              h\<lparr>arr2 := (arr2 h)(?f := nC, Suc (Suc ?f) := uW),
                arr1 := (arr1 h)(Suc ?f := nc, Suc (Suc (Suc ?f)) := ub),
                fresh := Suc (Suc (Suc (Suc ?f)))\<rparr>)"
    and sh1: "nrows nC = nrows ?G" "ncols nC = ncols ?G" "length nc = length ?g" "length ub = length ?g"
    and W1: "\<forall>r<nrows ?G. \<forall>c<ncols ?G.
               elem nC r c = elem ?C r c + (elem ?G r c) ^ 2
             \<and> elem uW r c = lr self * (elem ?G r c / sqrt (elem nC r c + epsilon self))"
    and B1: "\<forall>k<length ?g.
               nc ! k = ?c ! k + (?g ! k) ^ 2
             \<and> ub ! k = lr self * (?g ! k / sqrt (nc ! k + epsilon self))"
    using AdaGrad_layer_update_result[OF assms(1-9), of net grad_max] by blast
  define self' where "self' = self\<lparr>cW := (cW self)[jW := ?f], cb := (cb self)[jb := Suc ?f]\<rparr>"
  define h' where "h' = h\<lparr>arr2 := (arr2 h)(?f := nC, Suc (Suc ?f) := uW),
                arr1 := (arr1 h)(Suc ?f := nc, Suc (Suc (Suc ?f)) := ub),
                fresh := Suc (Suc (Suc (Suc ?f)))\<rparr>"
  have G': "arr2 h' dJdW_i = ?G" "arr1 h' dJdb_i = ?g"
    using assms(8,9) by (simp_all add: h'_def)
  have C': "arr2 h' (cW self' ! jW) = nC" "arr1 h' (cb self' ! jb) = nc"
    using jW jb by (simp_all add: h'_def self'_def)
  have U': "arr2 h' (Suc (Suc ?f)) = uW" "arr1 h' (Suc (Suc (Suc ?f))) = ub"
    by (simp_all add: h'_def)
  have pre2: "list_index (length (cW self')) i = Some jW"
    "list_index (length (cb self')) i = Some jb"
    "nrows (arr2 h' (cW self' ! jW)) = nrows (arr2 h' dJdW_i)"
    "ncols (arr2 h' (cW self' ! jW)) = ncols (arr2 h' dJdW_i)"
    "length (arr1 h' (cb self' ! jb)) = length (arr1 h' dJdb_i)"
    "0 < nrows (arr2 h' dJdW_i)" "0 < ncols (arr2 h' dJdW_i)"
    "dJdW_i < fresh h'" "dJdb_i < fresh h'"
    using assms(1,2,6-9) sh1 by (simp_all add: G' C') (simp_all add: self'_def h'_def)
  obtain gm2 nC2 nc2 uW2 ub2 where
    r2: "AdaGrad_layer_update self' net i dJdW_i dJdb_i gm h' =
           (Inr (Suc (Suc (fresh h')), Suc (Suc (Suc (fresh h'))), gm2),
            self'\<lparr>cW := (cW self')[jW := fresh h'], cb := (cb self')[jb := Suc (fresh h')]\<rparr>,
            h'\<lparr>arr2 := (arr2 h')(fresh h' := nC2, Suc (Suc (fresh h')) := uW2),
              arr1 := (arr1 h')(Suc (fresh h') := nc2, Suc (Suc (Suc (fresh h'))) := ub2),
              fresh := Suc (Suc (Suc (Suc (fresh h'))))\<rparr>)"
    and w2: "\<forall>r<nrows (arr2 h' dJdW_i). \<forall>c<ncols (arr2 h' dJdW_i).
             elem nC2 r c = elem (arr2 h' (cW self' ! jW)) r c + (elem (arr2 h' dJdW_i) r c) ^ 2
           \<and> elem uW2 r c = lr self' * (elem (arr2 h' dJdW_i) r c / sqrt (elem nC2 r c + epsilon self'))"
    and b2: "\<forall>k<length (arr1 h' dJdb_i).
             nc2 ! k = arr1 h' (cb self' ! jb) ! k + (arr1 h' dJdb_i ! k) ^ 2
           \<and> ub2 ! k = lr self' * (arr1 h' dJdb_i ! k / sqrt (nc2 ! k + epsilon self'))"
    using AdaGrad_layer_update_result[OF pre2, of net gm] by blast
  define self2 where
    "self2 = self'\<lparr>cW := (cW self')[jW := fresh h'], cb := (cb self')[jb := Suc (fresh h')]\<rparr>"
  define h2 where
    "h2 = h'\<lparr>arr2 := (arr2 h')(fresh h' := nC2, Suc (Suc (fresh h')) := uW2),
              arr1 := (arr1 h')(Suc (fresh h') := nc2, Suc (Suc (Suc (fresh h'))) := ub2),
              fresh := Suc (Suc (Suc (Suc (fresh h'))))\<rparr>"
  have run2: "AdaGrad_layer_update self' net i dJdW_i dJdb_i gm h' =
             (Inr (Suc (Suc (fresh h')), Suc (Suc (Suc (fresh h'))), gm2), self2, h2)"
    using r2 by (simp add: self2_def h2_def)
  have h2: "arr2 h2 (Suc (Suc (fresh h'))) = uW2" "arr1 h2 (Suc (Suc (Suc (fresh h')))) = ub2"
    by (simp_all add: h2_def)
  have par: "lr self' = lr self" "epsilon self' = epsilon self"
    by (simp_all add: self'_def)
  have W2: "\<forall>r<nrows ?G. \<forall>c<ncols ?G.
               elem nC2 r c = elem nC r c + (elem ?G r c) ^ 2
             \<and> elem uW2 r c = lr self * (elem ?G r c / sqrt (elem nC2 r c + epsilon self))"
    using w2 by (simp add: G' C' par)
  have B2: "\<forall>k<length ?g.
               nc2 ! k = nc ! k + (?g ! k) ^ 2
             \<and> ub2 ! k = lr self * (?g ! k / sqrt (nc2 ! k + epsilon self))"
    using b2 by (simp add: G' C' par)
  have W: "\<forall>r<nrows ?G. \<forall>c<ncols ?G.
               elem nC r c = elem ?C r c + (elem ?G r c) ^ 2
             \<and> elem ?C r c \<le> elem nC r c
             \<and> (elem ?G r c \<noteq> 0 \<longrightarrow> elem ?C r c < elem nC r c)
             \<and> elem uW r c = lr self * (elem ?G r c / sqrt (elem nC r c + epsilon self))
             \<and> (elem ?G r c \<noteq> 0 \<and> lr self \<noteq> 0 \<longrightarrow> \<bar>elem uW2 r c\<bar> < \<bar>elem uW r c\<bar>)"
  proof (intro allI impI)
    fix r c assume rc: "r < nrows ?G" "c < ncols ?G"
    have a: "elem nC r c = elem ?C r c + (elem ?G r c) ^ 2"
      and u: "elem uW r c = lr self * (elem ?G r c / sqrt (elem nC r c + epsilon self))"
      and a2: "elem nC2 r c = elem nC r c + (elem ?G r c) ^ 2"
      and u2: "elem uW2 r c = lr self * (elem ?G r c / sqrt (elem nC2 r c + epsilon self))"
      using W1 W2 rc by simp_all
    have nn: "0 \<le> elem ?C r c" using assms(11) rc by simp
    have s: "\<bar>elem uW2 r c\<bar> < \<bar>elem uW r c\<bar>" if "elem ?G r c \<noteq> 0" "lr self \<noteq> 0"
      unfolding u u2 a2 a using shrink[OF nn assms(10) that] .
    show "elem nC r c = elem ?C r c + (elem ?G r c) ^ 2
             \<and> elem ?C r c \<le> elem nC r c
             \<and> (elem ?G r c \<noteq> 0 \<longrightarrow> elem ?C r c < elem nC r c)
             \<and> elem uW r c = lr self * (elem ?G r c / sqrt (elem nC r c + epsilon self))
             \<and> (elem ?G r c \<noteq> 0 \<and> lr self \<noteq> 0 \<longrightarrow> \<bar>elem uW2 r c\<bar> < \<bar>elem uW r c\<bar>)"
      using a u s by simp
  qed
  have B: "\<forall>k<length ?g.
               nc ! k = ?c ! k + (?g ! k) ^ 2
             \<and> ?c ! k \<le> nc ! k
             \<and> (?g ! k \<noteq> 0 \<longrightarrow> ?c ! k < nc ! k)
             \<and> ub ! k = lr self * (?g ! k / sqrt (nc ! k + epsilon self))
             \<and> (?g ! k \<noteq> 0 \<and> lr self \<noteq> 0 \<longrightarrow> \<bar>ub2 ! k\<bar> < \<bar>ub ! k\<bar>)"
  proof (intro allI impI)
    fix k assume k: "k < length ?g"
    have a: "nc ! k = ?c ! k + (?g ! k) ^ 2"
      and u: "ub ! k = lr self * (?g ! k / sqrt (nc ! k + epsilon self))"
      and a2: "nc2 ! k = nc ! k + (?g ! k) ^ 2"
      and u2: "ub2 ! k = lr self * (?g ! k / sqrt (nc2 ! k + epsilon self))"
      using B1 B2 k by simp_all
    have nn: "0 \<le> ?c ! k" using assms(12) k by simp
    have s: "\<bar>ub2 ! k\<bar> < \<bar>ub ! k\<bar>" if "?g ! k \<noteq> 0" "lr self \<noteq> 0"
      unfolding u u2 a2 a using shrink[OF nn assms(10) that] .
    show "nc ! k = ?c ! k + (?g ! k) ^ 2
             \<and> ?c ! k \<le> nc ! k
             \<and> (?g ! k \<noteq> 0 \<longrightarrow> ?c ! k < nc ! k)
             \<and> ub ! k = lr self * (?g ! k / sqrt (nc ! k + epsilon self))
             \<and> (?g ! k \<noteq> 0 \<and> lr self \<noteq> 0 \<longrightarrow> \<bar>ub2 ! k\<bar> < \<bar>ub ! k\<bar>)"
      using a u s by simp
  qed
  have run1': "AdaGrad_layer_update self net i dJdW_i dJdb_i grad_max h
               = (Inr (Suc (Suc ?f), Suc (Suc (Suc ?f)), gm), self', h')"
    using run1 by (simp add: self'_def h'_def)
  show ?thesis
    apply (rule exI[of _ "Suc (Suc ?f)"], rule exI[of _ "Suc (Suc (Suc ?f))"], rule exI[of _ gm],
        rule exI[of _ self'], rule exI[of _ h'],
        rule exI[of _ "Suc (Suc (fresh h'))"], rule exI[of _ "Suc (Suc (Suc (fresh h')))"],
        rule exI[of _ gm2], rule exI[of _ self2], rule exI[of _ h2])
    unfolding C' U' h2
    using run1' run2 W B by blast
qed

theorem AdaGrad_cache_and_shrinkage_witness:
  "\<exists>uW ub gm self' h' uW2 ub2 gm2 self2 h2.
     AdaGrad_layer_update example_adagrad example_mlp 0 0 0 0 example_heap
       = (Inr (uW, ub, gm), self', h')
   \<and> AdaGrad_layer_update self' example_mlp 0 0 0 gm h' = (Inr (uW2, ub2, gm2), self2, h2)
   \<and> elem (arr2 h' (cW self' ! 0)) 0 0 = 25
   \<and> \<bar>elem (arr2 h2 uW2) 0 0\<bar> < \<bar>elem (arr2 h' uW) 0 0\<bar>
   \<and> arr1 h' (cb self' ! 0) ! 1 = 4
   \<and> \<bar>arr1 h2 ub2 ! 1\<bar> < \<bar>arr1 h' ub ! 1\<bar>"
proof -
  have pre: "list_index (length (cW example_adagrad)) 0 = Some 0"
    "list_index (length (cb example_adagrad)) 0 = Some 0"
    "nrows (arr2 example_heap (cW example_adagrad ! 0)) = nrows (arr2 example_heap 0)"
    "ncols (arr2 example_heap (cW example_adagrad ! 0)) = ncols (arr2 example_heap 0)"
    "length (arr1 example_heap (cb example_adagrad ! 0)) = length (arr1 example_heap 0)"
    "0 < nrows (arr2 example_heap 0)" "0 < ncols (arr2 example_heap 0)"
    "0 < fresh example_heap" "0 < fresh example_heap"
    "0 < epsilon example_adagrad"
    "\<forall>r<nrows (arr2 example_heap 0). \<forall>c<ncols (arr2 example_heap 0).
        0 \<le> elem (arr2 example_heap (cW example_adagrad ! 0)) r c"
    "\<forall>k<length (arr1 example_heap 0). 0 \<le> arr1 example_heap (cb example_adagrad ! 0) ! k"
    by (simp_all add: example_adagrad_def example_heap_simps example_shape list_index_def
        zeros2_def less_Suc_eq)
  have vals: "elem (arr2 example_heap 0) 0 0 = - 5" "arr1 example_heap 0 ! 1 = 2"
    "elem (arr2 example_heap (cW example_adagrad ! 0)) 0 0 = 0"
    "arr1 example_heap (cb example_adagrad ! 0) ! 1 = 0"
    "(0::nat) < nrows (arr2 example_heap 0)" "(0::nat) < ncols (arr2 example_heap 0)"
    "(1::nat) < length (arr1 example_heap 0)" "lr example_adagrad \<noteq> 0"
    by (simp_all add: example_adagrad_def example_heap_simps example_shape example_elems
        zeros2_def)
  from AdaGrad_cache_and_shrinkage [OF pre, of example_mlp 0]
  obtain uW ub gm self' h' uW2 ub2 gm2 self2 h2 where
    r1: "AdaGrad_layer_update example_adagrad example_mlp 0 0 0 0 example_heap
          = (Inr (uW, ub, gm), self', h')"
    and r2: "AdaGrad_layer_update self' example_mlp 0 0 0 gm h' = (Inr (uW2, ub2, gm2), self2, h2)"
    and W: "\<And>r c. r < nrows (arr2 example_heap 0) \<Longrightarrow> c < ncols (arr2 example_heap 0) \<Longrightarrow>
               elem (arr2 h' (cW self' ! 0)) r c
                 = elem (arr2 example_heap (cW example_adagrad ! 0)) r c
                   + (elem (arr2 example_heap 0) r c) ^ 2
             \<and> (elem (arr2 example_heap 0) r c \<noteq> 0 \<and> lr example_adagrad \<noteq> 0 \<longrightarrow>
                  \<bar>elem (arr2 h2 uW2) r c\<bar> < \<bar>elem (arr2 h' uW) r c\<bar>)"
    and B: "\<And>k. k < length (arr1 example_heap 0) \<Longrightarrow>
               arr1 h' (cb self' ! 0) ! k
                 = arr1 example_heap (cb example_adagrad ! 0) ! k + (arr1 example_heap 0 ! k) ^ 2
             \<and> (arr1 example_heap 0 ! k \<noteq> 0 \<and> lr example_adagrad \<noteq> 0 \<longrightarrow>
                  \<bar>arr1 h2 ub2 ! k\<bar> < \<bar>arr1 h' ub ! k\<bar>)"
    by blast
  have "elem (arr2 h' (cW self' ! 0)) 0 0 = 25"
    "\<bar>elem (arr2 h2 uW2) 0 0\<bar> < \<bar>elem (arr2 h' uW) 0 0\<bar>"
    using W[OF vals(5,6)] vals by simp_all
  moreover have "arr1 h' (cb self' ! 0) ! 1 = 4" "\<bar>arr1 h2 ub2 ! 1\<bar> < \<bar>arr1 h' ub ! 1\<bar>"
    using B[OF vals(7)] vals by simp_all
  ultimately show ?thesis
    using r1 r2 by blast
qed

text \<open>
  The claim as stated, without the condition on \<open>lr\<close>, fails for the learning
  rate 0: both calls return the update 0 for the gradient entry -5.
\<close>

lemma zero_lr_first_eval:
  "fst zero_lr_first = Inr (5, 6, 0)
   \<and> fst (snd zero_lr_first) = \<lparr>lr = 0, epsilon = 1/100, cW = [3], cb = [4]\<rparr>
   \<and> fresh (snd (snd zero_lr_first)) = 7
   \<and> arr2 (snd (snd zero_lr_first)) 0 = example_gradient
   \<and> nrows (arr2 (snd (snd zero_lr_first)) 3) = 1 \<and> ncols (arr2 (snd (snd zero_lr_first)) 3) = 2
   \<and> arr1 (snd (snd zero_lr_first)) 0 = [-3, 2]
   \<and> length (arr1 (snd (snd zero_lr_first)) 4) = 2
   \<and> elem (arr2 (snd (snd zero_lr_first)) 5) 0 0 = 0"
  by (simp add: zero_lr_first_def AdaGrad_layer_update_def zero_lr_adagrad_def
      example_adagrad_def example_mlp_def example_heap_def
      example_grad_max example_shape list_index_def broadcast2_def broadcast1_def bdim_def
      zeros2_def alloc2_def alloc1_def Let_def)

theorem AdaGrad_zero_lr_counterexample:
  "fst zero_lr_first = Inr (5, 6, 0)
   \<and> fst zero_lr_second = Inr (9, 10, 0)
   \<and> elem example_gradient 0 0 = - 5
   \<and> \<not> \<bar>elem (arr2 (snd (snd zero_lr_second)) 9) 0 0\<bar>
        < \<bar>elem (arr2 (snd (snd zero_lr_first)) 5) 0 0\<bar>"
  using zero_lr_first_eval
  by (simp add: zero_lr_second_def AdaGrad_layer_update_def example_mlp_def
      example_grad_max example_shape example_elems list_index_def broadcast2_def broadcast1_def
      bdim_def alloc2_def alloc1_def Let_def)

lemma clipped_clip: "clipped t g (clip_lt t (clip_gt t g))"
  by (cases t) (auto simp: clipped_def clip_lt_def clip_gt_def)

lemma clip_gradients_arr2:
  "arr2 (clip_gradients t rW rb h) r =
     (if r = rW then map_array2 (\<lambda>g. clip_lt t (clip_gt t g)) (arr2 h rW) else arr2 h r)"
  by (simp add: clip_gradients_def Let_def map_array2_def)

lemma clip_gradients_arr1:
  "arr1 (clip_gradients t rW rb h) r =
     (if r = rb then map (\<lambda>g. clip_lt t (clip_gt t g)) (arr1 h rb) else arr1 h r)"
  by (simp add: clip_gradients_def Let_def)

lemma clip_gradients_fresh: "fresh (clip_gradients t rW rb h) = fresh h"
  by (simp add: clip_gradients_def Let_def)

lemma Momentum_frame:
  assumes "Momentum_layer_update self net i rW rb gm h = (Inr res, self', h')"
    and "r < fresh h"
  shows "arr2 h' r = arr2 (clip_gradients (clip_thresh self) rW rb h) r
       \<and> arr1 h' r = arr1 (clip_gradients (clip_thresh self) rW rb h) r"
  using assms
  by (auto simp: Momentum_layer_update_def Let_def alloc1_def alloc2_def clip_gradients_fresh
      split: option.splits sum.splits prod.splits)

lemma AdaGrad_frame:
  assumes "AdaGrad_layer_update self net i rW rb gm h = (res, self', h')"
    and "r < fresh h"
  shows "arr2 h' r = arr2 h r \<and> arr1 h' r = arr1 h r"
  using assms
  by (auto simp: AdaGrad_layer_update_def Let_def alloc1_def alloc2_def
      split: option.splits sum.splits prod.splits)

text \<open>
  C10. For gradient arrays that exist before the call: after a call of the
  momentum strategy that returns, the caller's two arrays have their shapes
  and hold the clipped entries, an entry beyond the threshold in magnitude
  overwritten with the threshold or its negative and every other entry
  unchanged, whatever the later steps computed; after any call of the AdaGrad
  strategy the caller's two arrays are as they were.
\<close>

theorem gradient_arguments_frame:
  assumes "dJdW_i < fresh h" and "dJdb_i < fresh h"
  shows "(Momentum_layer_update self net i dJdW_i dJdb_i grad_max h = (Inr res, self', h') \<longrightarrow>
            nrows (arr2 h' dJdW_i) = nrows (arr2 h dJdW_i)
          \<and> ncols (arr2 h' dJdW_i) = ncols (arr2 h dJdW_i)
          \<and> (\<forall>r c. clipped (clip_thresh self) (elem (arr2 h dJdW_i) r c)
                                              (elem (arr2 h' dJdW_i) r c))
          \<and> length (arr1 h' dJdb_i) = length (arr1 h dJdb_i)
          \<and> (\<forall>k<length (arr1 h dJdb_i).
                clipped (clip_thresh self) (arr1 h dJdb_i ! k) (arr1 h' dJdb_i ! k)))
       \<and> (AdaGrad_layer_update aself net i dJdW_i dJdb_i grad_max h = (ares, aself', ah') \<longrightarrow>
            arr2 ah' dJdW_i = arr2 h dJdW_i \<and> arr1 ah' dJdb_i = arr1 h dJdb_i)"
proof (intro conjI impI)
  assume m: "Momentum_layer_update self net i dJdW_i dJdb_i grad_max h = (Inr res, self', h')"
  have W: "arr2 h' dJdW_i
           = map_array2 (\<lambda>g. clip_lt (clip_thresh self) (clip_gt (clip_thresh self) g)) (arr2 h dJdW_i)"
    using Momentum_frame[OF m assms(1)] by (simp add: clip_gradients_arr2)
  have b: "arr1 h' dJdb_i
           = map (\<lambda>g. clip_lt (clip_thresh self) (clip_gt (clip_thresh self) g)) (arr1 h dJdb_i)"
    using Momentum_frame[OF m assms(2)] by (simp add: clip_gradients_arr1)
  show "nrows (arr2 h' dJdW_i) = nrows (arr2 h dJdW_i)"
    and "ncols (arr2 h' dJdW_i) = ncols (arr2 h dJdW_i)"
    and "\<forall>r c. clipped (clip_thresh self) (elem (arr2 h dJdW_i) r c) (elem (arr2 h' dJdW_i) r c)"
    and "length (arr1 h' dJdb_i) = length (arr1 h dJdb_i)"
    and "\<forall>k<length (arr1 h dJdb_i).
            clipped (clip_thresh self) (arr1 h dJdb_i ! k) (arr1 h' dJdb_i ! k)"
    by (simp_all add: W b map_array2_def clipped_clip)
next
  assume a: "AdaGrad_layer_update aself net i dJdW_i dJdb_i grad_max h = (ares, aself', ah')"
  show "arr2 ah' dJdW_i = arr2 h dJdW_i" "arr1 ah' dJdb_i = arr1 h dJdb_i"
    using AdaGrad_frame[OF a assms(1)] AdaGrad_frame[OF a assms(2)] by simp_all
qed

lemma clipped_grad_max:
  "update_grad_max 0 (map_array2 (\<lambda>g. clip_lt (Float 2) (clip_gt (Float 2) g)) example_gradient)
   = Inr 0"
  by (simp add: update_grad_max_def np_max_def np_min_def entries_def rows_of_def row_def
      map_array2_def example_gradient_def clip_lt_def clip_gt_def max_key_abs_def py_max_def
      upt_rec)

lemma clip_momentum_eval:
  "fst (Momentum_layer_update clip_momentum example_mlp 0 0 0 0 example_heap) = Inr (3, 4, 0)
 \<and> elem (arr2 (snd (snd (Momentum_layer_update clip_momentum example_mlp 0 0 0 0 example_heap))) 0) 0 0 = - 2
 \<and> elem (arr2 (snd (snd (Momentum_layer_update clip_momentum example_mlp 0 0 0 0 example_heap))) 0) 0 1 = 1
 \<and> arr1 (snd (snd (Momentum_layer_update clip_momentum example_mlp 0 0 0 0 example_heap))) 0 = [- 2, 2]"
  by (simp add: Momentum_layer_update_def clip_momentum_def example_momentum_def example_mlp_def
      clip_gradients_arr2 clip_gradients_arr1 clip_gradients_fresh example_heap_simps
      clipped_grad_max example_shape example_elems list_index_def broadcast2_def broadcast1_def
      bdim_def zeros2_def alloc2_def alloc1_def Let_def map_array2_simps)
    (simp add: clip_lt_def clip_gt_def)

theorem gradient_arguments_frame_witness:
  "fst (Momentum_layer_update clip_momentum example_mlp 0 0 0 0 example_heap) = Inr (3, 4, 0)
 \<and> clipped (Float 2) (- 5)
      (elem (arr2 (snd (snd (Momentum_layer_update clip_momentum example_mlp 0 0 0 0 example_heap))) 0) 0 0)
 \<and> elem (arr2 (snd (snd (Momentum_layer_update clip_momentum example_mlp 0 0 0 0 example_heap))) 0) 0 0 = - 2
 \<and> elem (arr2 (snd (snd (Momentum_layer_update clip_momentum example_mlp 0 0 0 0 example_heap))) 0) 0 1 = 1
 \<and> arr1 (snd (snd (Momentum_layer_update clip_momentum example_mlp 0 0 0 0 example_heap))) 0 = [- 2, 2]
 \<and> arr2 (snd (snd (AdaGrad_layer_update example_adagrad example_mlp 0 0 0 0 example_heap))) 0
     = example_gradient
 \<and> arr1 (snd (snd (AdaGrad_layer_update example_adagrad example_mlp 0 0 0 0 example_heap))) 0
     = [- 3, 2]"
proof -
  let ?M = "Momentum_layer_update clip_momentum example_mlp 0 0 0 0 example_heap"
  let ?A = "AdaGrad_layer_update example_adagrad example_mlp 0 0 0 0 example_heap"
  have f: "(0::nat) < fresh example_heap" by (simp add: example_heap_simps)
  have m: "?M = (Inr (3, 4, 0), fst (snd ?M), snd (snd ?M))"
    using clip_momentum_eval by (simp add: prod_eq_iff)
  have a: "?A = (fst ?A, fst (snd ?A), snd (snd ?A))" by simp
  from gradient_arguments_frame [OF f f, of clip_momentum example_mlp 0 0 "(3, 4, 0)"
      "fst (snd ?M)" "snd (snd ?M)" example_adagrad "fst ?A" "fst (snd ?A)" "snd (snd ?A)"] m a
  have "clipped (clip_thresh clip_momentum) (elem (arr2 example_heap 0) 0 0)
          (elem (arr2 (snd (snd ?M)) 0) 0 0)"
    and "arr2 (snd (snd ?A)) 0 = arr2 example_heap 0"
    and "arr1 (snd (snd ?A)) 0 = arr1 example_heap 0"
    by blast+
  then show ?thesis
    using clip_momentum_eval
    by (simp add: example_heap_simps example_elems clip_momentum_def)
qed


section \<open>Construction\<close>

text \<open>Each of the five configuration keys, with no further arguments, constructs an estimator
  whose kernel has the key as its name.\<close>

lemma SVM_init_valid_keys:
  assumes "s \<in> {''gaussian'', ''linear'', ''polynomial'', ''sigmoid'', ''tanh''}"
  shows "\<exists>k. SVM_init (PyStr s) [] =
           Inr \<lparr>kernel_obj = k, classes = None, opt_result = None, sup_X = None,
                sup_y = None, sup_alphas = None, offset = None\<rparr>
         \<and> kernel_name k = Inr s"
  using assms
  by (auto simp: SVM_init_def KERNEL_MAP_def call_class_def accepts_def kwarg_def
      GaussianKernel_init_def LinearKernel_init_def PolynomialKernel_init_def
      SigmoidKernel_init_def TanHKernel_init_def kernel_name_def)

text \<open>
  C8. An SVM constructed with the string \<open>rbf\<close>, which is none of the five
  configuration keys: the lookup yields \<open>None\<close>, the call of \<open>None\<close> raises
  \<open>TypeError\<close>, and the check that would raise the \<open>ValueError\<close> of an invalid
  kernel is never reached.
\<close>

theorem SVM_init_invalid_key: "SVM_init (PyStr ''rbf'') [] = Inl TypeError"
  by (simp add: SVM_init_def KERNEL_MAP_def call_class_def)

end
